theory Spec2Isabelle
  imports
    Complex_Main
    "HOL-Library.Sublist"
    "HOL-Library.Multiset"
    "HOL-Library.Product_Lexorder"
    "HOL-Library.List_Lexorder"
    "HOL-Library.Char_ord"
begin

chapter \<open>CFO co-pilot: intent routing, date extraction and the finance aggregations\<close>

text \<open>
  A shallow embedding of \<^verbatim>\<open>agent/planner.py\<close> (class \<^verbatim>\<open>CFOAgent\<close>) and
  \<^verbatim>\<open>agent/tools.py\<close> (class \<^verbatim>\<open>FinanceDataTools\<close>).

  Conventions of the embedding:
  \<^item> a Python \<^verbatim>\<open>str\<close> is a \<open>string\<close>; \<^verbatim>\<open>str.lower\<close> is modelled on the ASCII letters
    (characters outside \<^verbatim>\<open>A-Z\<close> are left alone), and \<^verbatim>\<open>\d\<close> on the ASCII digits;
  \<^item> a pandas table is the list of its rows, in row order;
  \<^item> a timestamp of the \<^verbatim>\<open>month\<close> column is the triple (year, month, day), ordered
    lexicographically, which is the chronological order;
  \<^item> the float columns are idealised as \<open>real\<close>; the one place where the code produces
    \<^verbatim>\<open>float('inf')\<close> has the type \<open>pyfloat\<close>, which adds that value;
  \<^item> a raised exception is \<open>Inl\<close> of a sum type, and \<^verbatim>\<open>try/except Exception\<close> is a
    case distinction on it.
\<close>

section \<open>Strings\<close>

definition lower_char :: "char \<Rightarrow> char" where
  "lower_char c =
     (case map_of (zip ''ABCDEFGHIJKLMNOPQRSTUVWXYZ'' ''abcdefghijklmnopqrstuvwxyz'') c of
        Some d \<Rightarrow> d
      | None \<Rightarrow> c)"

definition lower :: "string \<Rightarrow> string" where
  "lower s = map lower_char s"

text \<open>Python's \<^verbatim>\<open>sub in s\<close>: \<open>sub\<close> occurs in \<open>s\<close> as a contiguous block.\<close>

fun contains :: "string \<Rightarrow> string \<Rightarrow> bool" where
  "contains sub [] = (sub = [])"
| "contains sub (c # cs) = (prefix sub (c # cs) \<or> contains sub cs)"

definition is_digit :: "char \<Rightarrow> bool" where
  "is_digit c = (c \<in> set ''0123456789'')"

definition digit_val :: "char \<Rightarrow> int" where
  "digit_val c = (case map_of (zip ''0123456789'' [0, 1, 2, 3, 4, 5, 6, 7, 8, 9]) c of
                    Some v \<Rightarrow> v
                  | None \<Rightarrow> 0)"

text \<open>\<^verbatim>\<open>int(s)\<close> on a string of decimal digits.\<close>

definition py_int :: "string \<Rightarrow> int" where
  "py_int s = foldl (\<lambda>acc c. 10 * acc + digit_val c) 0 s"

text \<open>\<^verbatim>\<open>str(n)\<close> for an integer, and the format specification \<^verbatim>\<open>02d\<close>.\<close>

fun digits :: "nat \<Rightarrow> string" where
  "digits n =
     (if n < 10 then [''0123456789'' ! n]
      else digits (n div 10) @ [''0123456789'' ! (n mod 10)])"

declare digits.simps [simp del]

definition str_int :: "int \<Rightarrow> string" where
  "str_int i = (if i < 0 then CHR ''-'' # digits (nat (- i)) else digits (nat i))"

definition fmt_02d :: "int \<Rightarrow> string" where
  "fmt_02d i = (let s = str_int i in if length s < 2 then CHR ''0'' # s else s)"

section \<open>The planner: \<^verbatim>\<open>classify_intent\<close>\<close>

definition classify_intent :: "string \<Rightarrow> string" where
  "classify_intent question =
     (let question_lower = lower question in
      if contains ''revenue'' question_lower
         \<and> (contains ''budget'' question_lower \<or> contains ''vs'' question_lower)
      then ''revenue_vs_budget''
      else if contains ''margin'' question_lower \<or> contains ''gross'' question_lower
      then ''gross_margin''
      else if contains ''opex'' question_lower \<or> contains ''breakdown'' question_lower
      then ''opex_breakdown''
      else if contains ''cash'' question_lower \<or> contains ''runway'' question_lower
              \<or> contains ''burn'' question_lower
      then ''cash_runway''
      else if contains ''ebitda'' question_lower
      then ''ebitda''
      else ''unknown'')"

subsection \<open>The classifier as the specification words it\<close>

datatype intent_tag =
  RevenueVsBudget | GrossMargin | OpexBreakdown | CashRunway | Ebitda | Unknown

fun tag_name :: "intent_tag \<Rightarrow> string" where
  "tag_name RevenueVsBudget = ''revenue_vs_budget''"
| "tag_name GrossMargin = ''gross_margin''"
| "tag_name OpexBreakdown = ''opex_breakdown''"
| "tag_name CashRunway = ''cash_runway''"
| "tag_name Ebitda = ''ebitda''"
| "tag_name Unknown = ''unknown''"

text \<open>
  Case-insensitive substring matching: some contiguous block of the question is the
  keyword up to the case of its letters.
\<close>

definition occurs_ci :: "string \<Rightarrow> string \<Rightarrow> bool" where
  "occurs_ci kw question = (\<exists>p w t. question = p @ w @ t \<and> lower w = kw)"

text \<open>
  The rules in their priority order, each a condition on the keyword test together with
  the tag it yields; the first rule whose condition holds wins.
\<close>

definition priority_rules :: "(((string \<Rightarrow> bool) \<Rightarrow> bool) \<times> intent_tag) list" where
  "priority_rules =
     [(\<lambda>has. has ''revenue'' \<and> (has ''budget'' \<or> has ''vs''), RevenueVsBudget),
      (\<lambda>has. has ''margin'' \<or> has ''gross'', GrossMargin),
      (\<lambda>has. has ''opex'' \<or> has ''breakdown'', OpexBreakdown),
      (\<lambda>has. has ''cash'' \<or> has ''runway'' \<or> has ''burn'', CashRunway),
      (\<lambda>has. has ''ebitda'', Ebitda)]"

fun first_match :: "(((string \<Rightarrow> bool) \<Rightarrow> bool) \<times> intent_tag) list \<Rightarrow> (string \<Rightarrow> bool) \<Rightarrow> intent_tag" where
  "first_match [] has = Unknown"
| "first_match ((cond, tag) # rules) has = (if cond has then tag else first_match rules has)"

definition classify_spec :: "string \<Rightarrow> intent_tag" where
  "classify_spec question = first_match priority_rules (\<lambda>kw. occurs_ci kw question)"

section \<open>The planner: \<^verbatim>\<open>extract_month_year\<close>\<close>

text \<open>The dictionary literal, in its insertion order, which is the order Python iterates it in.\<close>

definition month_mapping :: "(string \<times> int) list" where
  "month_mapping =
     [(''january'', 1), (''jan'', 1),
      (''february'', 2), (''feb'', 2),
      (''march'', 3), (''mar'', 3),
      (''april'', 4), (''apr'', 4),
      (''may'', 5),
      (''june'', 6), (''jun'', 6),
      (''july'', 7), (''jul'', 7),
      (''august'', 8), (''aug'', 8),
      (''september'', 9), (''sep'', 9),
      (''october'', 10), (''oct'', 10),
      (''november'', 11), (''nov'', 11),
      (''december'', 12), (''dec'', 12)]"

text \<open>The \<^verbatim>\<open>for ... break\<close> loop over the items of the dictionary.\<close>

fun scan_months :: "(string \<times> int) list \<Rightarrow> string \<Rightarrow> int option" where
  "scan_months [] question_lower = None"
| "scan_months ((month_name, num) # items) question_lower =
     (if contains month_name question_lower then Some num
      else scan_months items question_lower)"

text \<open>
  \<^verbatim>\<open>re.search(r'20\d{2}', question)\<close>: the leftmost position at which the pattern matches,
  tried from each position in turn; the value is the matched text.
\<close>

fun match_20dd :: "string \<Rightarrow> bool" where
  "match_20dd (a # b # c # d # rest) =
     (a = CHR ''2'' \<and> b = CHR ''0'' \<and> is_digit c \<and> is_digit d)"
| "match_20dd _ = False"

fun re_search_20dd :: "string \<Rightarrow> string option" where
  "re_search_20dd [] = None"
| "re_search_20dd (c # cs) =
     (if match_20dd (c # cs) then Some (take 4 (c # cs)) else re_search_20dd cs)"

definition extract_month_year :: "string \<Rightarrow> int option \<times> int" where
  "extract_month_year question =
     (let question_lower = lower question;
          month_num = scan_months month_mapping question_lower;
          year_match = re_search_20dd question;
          year = (case year_match of Some g \<Rightarrow> py_int g | None \<Rightarrow> 2025)
      in (month_num, year))"

text \<open>Position \<open>i\<close> of the question starts a block of the form \<^verbatim>\<open>20dd\<close>.\<close>

definition year_token_at :: "string \<Rightarrow> nat \<Rightarrow> bool" where
  "year_token_at question i = match_20dd (drop i question)"


section \<open>The tables of \<^verbatim>\<open>FinanceDataTools\<close>\<close>

text \<open>
  A value of a \<^verbatim>\<open>month\<close> column after \<^verbatim>\<open>pd.to_datetime\<close>: (year, month, day). The
  lexicographic order on the triple is the order pandas sorts timestamps in.
\<close>

type_synonym timestamp = "int \<times> int \<times> int"

definition dt_year :: "timestamp \<Rightarrow> int" where
  "dt_year ts = fst ts"

definition dt_month :: "timestamp \<Rightarrow> int" where
  "dt_month ts = fst (snd ts)"

text \<open>\<^verbatim>\<open>strftime('%Y-%m')\<close>: the year in decimal, a dash, the month on two digits.\<close>

definition strftime_Ym :: "timestamp \<Rightarrow> string" where
  "strftime_Ym ts = str_int (dt_year ts) @ ''-'' @ fmt_02d (dt_month ts)"

text \<open>A row of the sheets \<^verbatim>\<open>actuals\<close> and \<^verbatim>\<open>budget\<close> (columns month, account_category, currency, amount).\<close>

record ledger_row =
  row_month :: timestamp
  account_category :: string
  currency :: string
  amount :: real

text \<open>A row of the sheet \<^verbatim>\<open>fx\<close> (columns month, currency, rate_to_usd).\<close>

record fx_row =
  fx_month :: timestamp
  fx_currency :: string
  fx_rate_to_usd :: real

text \<open>A row of the sheet \<^verbatim>\<open>cash\<close> (columns month, cash_usd).\<close>

record cash_row =
  cash_month :: timestamp
  cash_usd :: real

text \<open>The four data frames an instance of \<^verbatim>\<open>FinanceDataTools\<close> holds after \<^verbatim>\<open>load_data\<close>.\<close>

record tables =
  actuals_df :: "ledger_row list"
  budget_df :: "ledger_row list"
  fx_df :: "fx_row list"
  cash_df :: "cash_row list"

text \<open>A row of the frame \<^verbatim>\<open>_convert_to_usd\<close> returns: the ledger columns and the two new ones.\<close>

record usd_row = ledger_row +
  rate_to_usd :: real
  amount_usd :: real

section \<open>Python and pandas primitives\<close>

datatype error = ZeroDivisionError | IndexError

text \<open>
  Sequencing inside a \<^verbatim>\<open>try\<close> block: when a step raises, the steps after it are skipped
  and the exception is what the block yields.
\<close>

definition and_then :: "'e + 'a \<Rightarrow> ('a \<Rightarrow> 'e + 'b) \<Rightarrow> 'e + 'b" where
  "and_then m f = (case m of Inl e \<Rightarrow> Inl e | Inr x \<Rightarrow> f x)"

text \<open>Truth value of an \<^verbatim>\<open>Optional[int]\<close>: \<^verbatim>\<open>None\<close> and \<^verbatim>\<open>0\<close> are false.\<close>

definition truthy :: "int option \<Rightarrow> bool" where
  "truthy v = (case v of None \<Rightarrow> False | Some n \<Rightarrow> n \<noteq> 0)"

text \<open>The operator \<^verbatim>\<open>/\<close>, which raises on a zero divisor.\<close>

definition py_truediv :: "real \<Rightarrow> real \<Rightarrow> error + real" where
  "py_truediv a b = (if b = 0 then Inl ZeroDivisionError else Inr (a / b))"

text \<open>\<^verbatim>\<open>.iloc[i]\<close> on a frame of rows; a negative position counts from the end.\<close>

definition iloc :: "'a list \<Rightarrow> int \<Rightarrow> error + 'a" where
  "iloc rows i =
     (let n = int (length rows); k = (if i < 0 then i + n else i)
      in if k < 0 \<or> n \<le> k then Inl IndexError else Inr (rows ! nat k))"

text \<open>
  \<^verbatim>\<open>Series.nlargest(n)\<close>: the \<open>n\<close> largest values of a column, largest first. Every row
  contributes its value, so a value that several rows carry is taken several times.
\<close>

definition series_nlargest :: "int \<Rightarrow> 'a::linorder list \<Rightarrow> 'a list" where
  "series_nlargest n col = (if n \<le> 0 then [] else take (nat n) (rev (sort col)))"

text \<open>
  \<^verbatim>\<open>DataFrame.nlargest(n, column)\<close>: the \<open>n\<close> rows with the largest keys, largest first;
  among rows of equal key the earlier ones are kept (\<^verbatim>\<open>keep='first'\<close>).
\<close>

definition frame_nlargest :: "int \<Rightarrow> ('r \<Rightarrow> 'k::linorder) \<Rightarrow> 'r list \<Rightarrow> 'r list" where
  "frame_nlargest n key rows =
     (if n \<le> 0 then [] else take (nat n) (rev (sort_key key (rev rows))))"

text \<open>\<^verbatim>\<open>DataFrame.sort_values(column)\<close>, ascending.\<close>

definition sort_values :: "('r \<Rightarrow> 'k::linorder) \<Rightarrow> 'r list \<Rightarrow> 'r list" where
  "sort_values key rows = sort_key key rows"

text \<open>\<^verbatim>\<open>str.startswith\<close>.\<close>

definition startswith :: "string \<Rightarrow> string \<Rightarrow> bool" where
  "startswith s pre = prefix pre s"

section \<open>\<^verbatim>\<open>_convert_to_usd\<close>\<close>

text \<open>
  \<^verbatim>\<open>df.merge(self.fx_df, on=['month', 'currency'], how='left')\<close>: every row of \<open>df\<close>, in
  order, paired with the rate of each row of the FX table that has the same month and
  currency; a row of \<open>df\<close> without a partner is kept once, with a missing rate.
\<close>

definition merge_left :: "ledger_row list \<Rightarrow> fx_row list \<Rightarrow> (ledger_row \<times> real option) list" where
  "merge_left df fx =
     concat (map (\<lambda>r.
       (case filter (\<lambda>f. fx_month f = row_month r \<and> fx_currency f = currency r) fx of
          [] \<Rightarrow> [(r, None)]
        | partners \<Rightarrow> map (\<lambda>f. (r, Some (fx_rate_to_usd f))) partners)) df)"

definition fillna :: "real \<Rightarrow> real option \<Rightarrow> real" where
  "fillna v x = (case x of None \<Rightarrow> v | Some y \<Rightarrow> y)"

definition with_usd :: "ledger_row \<Rightarrow> real \<Rightarrow> usd_row" where
  "with_usd r rate =
     \<lparr>row_month = row_month r, account_category = account_category r,
      currency = currency r, amount = amount r,
      rate_to_usd = rate, amount_usd = amount r * rate\<rparr>"

text \<open>
  The \<^verbatim>\<open>except\<close> branch of the source handles frames that lack a column; the rows of
  this model always have their columns, so the \<^verbatim>\<open>try\<close> block is the whole function.
\<close>

definition convert_to_usd :: "fx_row list \<Rightarrow> ledger_row list \<Rightarrow> usd_row list" where
  "convert_to_usd fx df =
     map (\<lambda>(r, rate). with_usd r (fillna 1 rate)) (merge_left df fx)"

definition sum_amount_usd :: "usd_row list \<Rightarrow> real" where
  "sum_amount_usd rows = sum_list (map amount_usd rows)"

section \<open>\<^verbatim>\<open>get_revenue_vs_budget\<close>\<close>

record rvb =
  actual :: real
  budget :: real
  variance :: real
  variance_pct :: real

definition get_revenue_vs_budget_try :: "tables \<Rightarrow> int option \<Rightarrow> int option \<Rightarrow> error + rvb" where
  "get_revenue_vs_budget_try self month year =
     (let revenue_actual = filter (\<lambda>r. account_category r = ''Revenue'') (actuals_df self);
          revenue_budget = filter (\<lambda>r. account_category r = ''Revenue'') (budget_df self);
          (revenue_actual, revenue_budget) =
            (if truthy month \<and> truthy year then
               let target_date = str_int (the year) @ ''-'' @ fmt_02d (the month)
               in (filter (\<lambda>r. strftime_Ym (row_month r) = target_date) revenue_actual,
                   filter (\<lambda>r. strftime_Ym (row_month r) = target_date) revenue_budget)
             else if truthy year then
               (filter (\<lambda>r. dt_year (row_month r) = the year) revenue_actual,
                filter (\<lambda>r. dt_year (row_month r) = the year) revenue_budget)
             else (revenue_actual, revenue_budget));
          revenue_actual = convert_to_usd (fx_df self) revenue_actual;
          revenue_budget = convert_to_usd (fx_df self) revenue_budget;
          actual_total = sum_amount_usd revenue_actual;
          budget_total = sum_amount_usd revenue_budget;
          variance = actual_total - budget_total
      in and_then
           (if budget_total \<noteq> 0
            then and_then (py_truediv variance budget_total) (\<lambda>q. Inr (q * 100))
            else Inr 0)
           (\<lambda>variance_pct.
              Inr \<lparr>actual = actual_total, budget = budget_total,
                   variance = variance, variance_pct = variance_pct\<rparr>))"

definition get_revenue_vs_budget :: "tables \<Rightarrow> int option \<Rightarrow> int option \<Rightarrow> rvb" where
  "get_revenue_vs_budget self month year =
     (case get_revenue_vs_budget_try self month year of
        Inr result \<Rightarrow> result
      | Inl e \<Rightarrow> \<lparr>actual = 0, budget = 0, variance = 0, variance_pct = 0\<rparr>)"


section \<open>\<^verbatim>\<open>calculate_gross_margin\<close>\<close>

record margin_trend =
  margins :: "real list"
  months :: "string list"
  avg_margin :: real

text \<open>The body of the \<^verbatim>\<open>for month in latest_months\<close> loop, with its two accumulators.\<close>

fun gross_margin_loop ::
  "tables \<Rightarrow> timestamp list \<Rightarrow> real list \<Rightarrow> string list \<Rightarrow> error + (real list \<times> string list)" where
  "gross_margin_loop self [] margins_acc month_labels = Inr (margins_acc, month_labels)"
| "gross_margin_loop self (month # rest) margins_acc month_labels =
     (let month_data = filter (\<lambda>r. row_month r = month) (actuals_df self);
          revenue = filter (\<lambda>r. account_category r = ''Revenue'') month_data;
          cogs = filter (\<lambda>r. account_category r = ''COGS'') month_data;
          revenue = convert_to_usd (fx_df self) revenue;
          cogs = convert_to_usd (fx_df self) cogs;
          revenue_total = sum_amount_usd revenue;
          cogs_total = sum_amount_usd cogs
      in and_then
           (if revenue_total \<noteq> 0 then py_truediv (revenue_total - cogs_total) revenue_total
            else Inr 0)
           (\<lambda>margin. gross_margin_loop self rest
                        (margins_acc @ [margin * 100]) (month_labels @ [strftime_Ym month])))"

text \<open>\<^verbatim>\<open>np.mean\<close> of a non-empty list.\<close>

definition np_mean :: "real list \<Rightarrow> real" where
  "np_mean xs = sum_list xs / real (length xs)"

definition calculate_gross_margin_try :: "tables \<Rightarrow> int \<Rightarrow> error + margin_trend" where
  "calculate_gross_margin_try self n_months =
     (let latest_months = sort (series_nlargest n_months (map row_month (actuals_df self)))
      in and_then (gross_margin_loop self latest_months [] [])
           (\<lambda>(margins_acc, month_labels).
              Inr \<lparr>margins = margins_acc, months = month_labels,
                   avg_margin = (if margins_acc \<noteq> [] then np_mean margins_acc else 0)\<rparr>))"

definition calculate_gross_margin :: "tables \<Rightarrow> int \<Rightarrow> margin_trend" where
  "calculate_gross_margin self n_months =
     (case calculate_gross_margin_try self n_months of
        Inr result \<Rightarrow> result
      | Inl e \<Rightarrow> \<lparr>margins = [], months = [], avg_margin = 0\<rparr>)"

section \<open>\<^verbatim>\<open>get_opex_breakdown\<close>\<close>

text \<open>
  \<^verbatim>\<open>groupby('account_category')['amount_usd'].sum().to_dict()\<close>: one entry per category
  that occurs, in the sorted order of the group keys, with the sum of the group.
\<close>

definition groupby_sum :: "usd_row list \<Rightarrow> (string \<times> real) list" where
  "groupby_sum rows =
     map (\<lambda>c. (c, sum_amount_usd (filter (\<lambda>r. account_category r = c) rows)))
       (sort (remdups (map account_category rows)))"

text \<open>
  No step of the body raises in this model, so the \<^verbatim>\<open>except\<close> branch (which returns the
  empty dictionary) is never taken and the function is its \<^verbatim>\<open>try\<close> block.
\<close>

definition get_opex_breakdown :: "tables \<Rightarrow> int option \<Rightarrow> int option \<Rightarrow> (string \<times> real) list" where
  "get_opex_breakdown self month year =
     (let opex_data = filter (\<lambda>r. startswith (account_category r) ''Opex:'') (actuals_df self);
          opex_data =
            (if truthy month \<and> truthy year then
               let target_date = str_int (the year) @ ''-'' @ fmt_02d (the month)
               in filter (\<lambda>r. strftime_Ym (row_month r) = target_date) opex_data
             else if truthy year then
               filter (\<lambda>r. dt_year (row_month r) = the year) opex_data
             else opex_data);
          opex_data = convert_to_usd (fx_df self) opex_data;
          breakdown = groupby_sum opex_data
      in breakdown)"

section \<open>\<^verbatim>\<open>calculate_ebitda_proxy\<close>\<close>

text \<open>Here too the body has no step that raises; the handler's value 0 is never produced.\<close>

definition calculate_ebitda_proxy :: "tables \<Rightarrow> real" where
  "calculate_ebitda_proxy self =
     (let all_data = convert_to_usd (fx_df self) (actuals_df self);
          revenue = sum_amount_usd (filter (\<lambda>r. account_category r = ''Revenue'') all_data);
          cogs = sum_amount_usd (filter (\<lambda>r. account_category r = ''COGS'') all_data);
          opex = sum_amount_usd (filter (\<lambda>r. startswith (account_category r) ''Opex:'') all_data);
          ebitda = revenue - cogs - opex
      in ebitda)"

section \<open>\<^verbatim>\<open>get_cash_runway\<close>\<close>

text \<open>A float that may be \<^verbatim>\<open>float('inf')\<close>.\<close>

datatype pyfloat = Finite real | Infinity

record cash_runway =
  cash_balance :: real
  monthly_burn :: real
  runway_months :: pyfloat

definition get_cash_runway_try :: "tables \<Rightarrow> error + cash_runway" where
  "get_cash_runway_try self =
     (let latest_cash = sort_values cash_month (frame_nlargest 4 cash_month (cash_df self))
      in if length latest_cash < 4
         then Inr \<lparr>cash_balance = 0, monthly_burn = 0, runway_months = Finite 0\<rparr>
         else
           and_then (iloc latest_cash 0) (\<lambda>first_row.
           and_then (iloc latest_cash (- 1)) (\<lambda>last_row.
             let cash_start = cash_usd first_row;
                 cash_end = cash_usd last_row
             in and_then (py_truediv (cash_start - cash_end) 3) (\<lambda>monthly_burn.
                let current_cash = cash_end
                in and_then
                     (if monthly_burn > 0
                      then and_then (py_truediv current_cash monthly_burn) (\<lambda>q. Inr (Finite q))
                      else Inr Infinity)
                     (\<lambda>runway_months.
                        Inr \<lparr>cash_balance = current_cash, monthly_burn = monthly_burn,
                             runway_months = runway_months\<rparr>)))))"

definition get_cash_runway :: "tables \<Rightarrow> cash_runway" where
  "get_cash_runway self =
     (case get_cash_runway_try self of
        Inr result \<Rightarrow> result
      | Inl e \<Rightarrow> \<lparr>cash_balance = 0, monthly_burn = 0, runway_months = Finite 0\<rparr>)"


section \<open>The chart builders\<close>

text \<open>
  What a plotly figure is built from. Each builder of the source wraps its body in
  \<^verbatim>\<open>try/except\<close> and falls back to an empty figure, so none of them raises.
\<close>

datatype figure =
  RevenueFigure real real
  | MarginFigure "string list" "real list"
  | OpexFigure "string list" "real list"
  | EmptyFigure

definition create_revenue_chart :: "rvb \<Rightarrow> figure" where
  "create_revenue_chart data = RevenueFigure (actual data) (budget data)"

definition create_margin_trend_chart :: "margin_trend \<Rightarrow> figure" where
  "create_margin_trend_chart data = MarginFigure (months data) (margins data)"

definition create_opex_breakdown_chart :: "(string \<times> real) list \<Rightarrow> figure" where
  "create_opex_breakdown_chart data = OpexFigure (map fst data) (map snd data)"

section \<open>The dispatcher: \<^verbatim>\<open>process_question\<close>\<close>

text \<open>An exception as the dispatcher sees it: \<open>str_exn\<close> is \<^verbatim>\<open>str(e)\<close>.\<close>

datatype exn = Exception string

fun str_exn :: "exn \<Rightarrow> string" where
  "str_exn (Exception msg) = msg"

text \<open>
  The methods of \<^verbatim>\<open>self.tools\<close> that \<^verbatim>\<open>process_question\<close> calls. To the dispatcher each
  call is an arbitrary Python call: it returns a value or raises.
\<close>

record tools_api =
  api_get_revenue_vs_budget :: "int option \<Rightarrow> int option \<Rightarrow> exn + rvb"
  api_create_revenue_chart :: "rvb \<Rightarrow> exn + figure"
  api_calculate_gross_margin :: "int \<Rightarrow> exn + margin_trend"
  api_create_margin_trend_chart :: "margin_trend \<Rightarrow> exn + figure"
  api_get_opex_breakdown :: "int option \<Rightarrow> int option \<Rightarrow> exn + (string \<times> real) list"
  api_create_opex_breakdown_chart :: "(string \<times> real) list \<Rightarrow> exn + figure"
  api_get_cash_runway :: "exn + cash_runway"
  api_calculate_ebitda_proxy :: "exn + real"

text \<open>The instance the agent is constructed with: \<^verbatim>\<open>FinanceDataTools\<close> over loaded tables.\<close>

definition finance_data_tools :: "tables \<Rightarrow> tools_api" where
  "finance_data_tools self =
     \<lparr>api_get_revenue_vs_budget = (\<lambda>month year. Inr (get_revenue_vs_budget self month year)),
      api_create_revenue_chart = (\<lambda>data. Inr (create_revenue_chart data)),
      api_calculate_gross_margin = (\<lambda>n_months. Inr (calculate_gross_margin self n_months)),
      api_create_margin_trend_chart = (\<lambda>data. Inr (create_margin_trend_chart data)),
      api_get_opex_breakdown = (\<lambda>month year. Inr (get_opex_breakdown self month year)),
      api_create_opex_breakdown_chart = (\<lambda>data. Inr (create_opex_breakdown_chart data)),
      api_get_cash_runway = Inr (get_cash_runway self),
      api_calculate_ebitda_proxy = Inr (calculate_ebitda_proxy self)\<rparr>"

text \<open>The value under the key \<^verbatim>\<open>data\<close> of the returned dictionary.\<close>

datatype payload =
  RevenueData rvb
  | MarginData margin_trend
  | OpexData "(string \<times> real) list"
  | CashData cash_runway
  | EbitdaData real

text \<open>The returned dictionary, with its keys \<^verbatim>\<open>intent\<close>, \<^verbatim>\<open>text\<close>, \<^verbatim>\<open>chart\<close> and \<^verbatim>\<open>data\<close>.\<close>

record envelope =
  intent :: string
  text' :: string
  chart :: "figure option"
  data :: "payload option"

text \<open>
  The \<^verbatim>\<open>try\<close> block. The format specifications of the f-strings (\<^verbatim>\<open>,.0f\<close> and \<^verbatim>\<open>.1f\<close>)
  are Python's own float formatting, which is not part of the repository: \<open>fmt\<close> stands
  for it, given the specification and the number, and like any call it may raise.
\<close>

definition process_question_try ::
  "tools_api \<Rightarrow> (string \<Rightarrow> pyfloat \<Rightarrow> exn + string) \<Rightarrow> string \<Rightarrow> exn + envelope" where
  "process_question_try tools fmt question =
     (let intent = classify_intent question;
          (month_num, year) = extract_month_year question
      in if intent = ''revenue_vs_budget'' then
           and_then (api_get_revenue_vs_budget tools month_num (Some year)) (\<lambda>data.
           and_then (api_create_revenue_chart tools data) (\<lambda>chart.
           let month_year = (if truthy month_num
                             then str_int (the month_num) @ ''/'' @ str_int year
                             else str_int year)
           in and_then (fmt '',.0f'' (Finite (actual data))) (\<lambda>actual_s.
              and_then (fmt '',.0f'' (Finite (budget data))) (\<lambda>budget_s.
              and_then (fmt ''.1f'' (Finite (variance_pct data))) (\<lambda>pct_s.
                Inr \<lparr>intent = intent,
                     text' = ''Revenue '' @ month_year @ '': Actual $'' @ actual_s
                               @ '' vs Budget $'' @ budget_s @ '' (Variance: '' @ pct_s @ ''%)'',
                     chart = Some chart, data = Some (RevenueData data)\<rparr>)))))
         else if intent = ''gross_margin'' then
           and_then (api_calculate_gross_margin tools 3) (\<lambda>data.
           and_then (api_create_margin_trend_chart tools data) (\<lambda>chart.
           and_then (fmt ''.1f'' (Finite (avg_margin data))) (\<lambda>avg_s.
             Inr \<lparr>intent = intent,
                  text' = ''Gross Margin: '' @ avg_s @ ''% average over last 3 months'',
                  chart = Some chart, data = Some (MarginData data)\<rparr>)))
         else if intent = ''opex_breakdown'' then
           and_then (api_get_opex_breakdown tools month_num (Some year)) (\<lambda>data.
           and_then (api_create_opex_breakdown_chart tools data) (\<lambda>chart.
           let month_year = (if truthy month_num
                             then str_int (the month_num) @ ''/'' @ str_int year
                             else str_int year)
           in Inr \<lparr>intent = intent, text' = ''Opex breakdown for '' @ month_year,
                   chart = Some chart, data = Some (OpexData data)\<rparr>))
         else if intent = ''cash_runway'' then
           and_then (api_get_cash_runway tools) (\<lambda>data.
           and_then (fmt ''.1f'' (runway_months data)) (\<lambda>runway_s.
           and_then (fmt '',.0f'' (Finite (cash_balance data))) (\<lambda>balance_s.
           and_then (fmt '',.0f'' (Finite (monthly_burn data))) (\<lambda>burn_s.
             Inr \<lparr>intent = intent,
                  text' = ''Cash runway: '' @ runway_s @ '' months ($'' @ balance_s
                            @ '' balance, $'' @ burn_s @ ''/month burn)'',
                  chart = None, data = Some (CashData data)\<rparr>))))
         else if intent = ''ebitda'' then
           and_then (api_calculate_ebitda_proxy tools) (\<lambda>ebitda.
           and_then (fmt '',.0f'' (Finite ebitda)) (\<lambda>ebitda_s.
             Inr \<lparr>intent = intent, text' = ''EBITDA proxy: $'' @ ebitda_s,
                  chart = None, data = Some (EbitdaData ebitda)\<rparr>))
         else
           Inr \<lparr>intent = intent,
                text' = ''I'' @ [CHR 0x27] @ ''m not sure how to help with that question. Please ask about revenue vs budget, gross margin, opex breakdown, cash runway, or EBITDA.'',
                chart = None, data = None\<rparr>)"

text \<open>
  \<^verbatim>\<open>process_question\<close>: the \<^verbatim>\<open>try\<close> block under its \<^verbatim>\<open>except Exception as e\<close> handler.
  The result is again a sum, so that "returns an envelope" is a statement about the
  function and not a consequence of its type.
\<close>

definition process_question ::
  "tools_api \<Rightarrow> (string \<Rightarrow> pyfloat \<Rightarrow> exn + string) \<Rightarrow> string \<Rightarrow> exn + envelope" where
  "process_question tools fmt question =
     (case process_question_try tools fmt question of
        Inr result \<Rightarrow> Inr result
      | Inl e \<Rightarrow>
          Inr \<lparr>intent = ''error'',
               text' = ''Sorry, I encountered an error processing your question: '' @ str_exn e,
               chart = None, data = None\<rparr>)"

section \<open>The tables and filters as the specification words them\<close>

text \<open>
  The FX table's rate for a (period, currency) pair: the rate of the row with exactly
  that period and currency, if there is one.
\<close>

definition fx_key :: "fx_row \<Rightarrow> timestamp \<times> string" where
  "fx_key f = (fx_month f, fx_currency f)"

definition fx_rate_for :: "fx_row list \<Rightarrow> timestamp \<Rightarrow> string \<Rightarrow> real option" where
  "fx_rate_for fx period cur =
     map_option fx_rate_to_usd (find (\<lambda>f. fx_month f = period \<and> fx_currency f = cur) fx)"

definition rate_or_default :: "fx_row list \<Rightarrow> ledger_row \<Rightarrow> real" where
  "rate_or_default fx r =
     (case fx_rate_for fx (row_month r) (currency r) of Some rate \<Rightarrow> rate | None \<Rightarrow> 1)"

text \<open>
  The period filter of the revenue and opex queries: the exact month and year when both
  are supplied, the whole year when only the year is, and every period otherwise.
\<close>

definition period_selected :: "int option \<Rightarrow> int option \<Rightarrow> timestamp \<Rightarrow> bool" where
  "period_selected month year ts =
     (if truthy month \<and> truthy year
      then strftime_Ym ts = str_int (the year) @ ''-'' @ fmt_02d (the month)
      else if truthy year then dt_year ts = the year
      else True)"

definition revenue_total :: "fx_row list \<Rightarrow> int option \<Rightarrow> int option \<Rightarrow> ledger_row list \<Rightarrow> real" where
  "revenue_total fx month year rows =
     sum_amount_usd (convert_to_usd fx
       (filter (\<lambda>r. account_category r = ''Revenue'' \<and> period_selected month year (row_month r)) rows))"

definition opex_breakdown_of :: "fx_row list \<Rightarrow> int option \<Rightarrow> int option \<Rightarrow> ledger_row list \<Rightarrow> (string \<times> real) list" where
  "opex_breakdown_of fx month year rows =
     groupby_sum (convert_to_usd fx
       (filter (\<lambda>r. startswith (account_category r) ''Opex:''
                    \<and> period_selected month year (row_month r)) rows))"

section \<open>Sample tables\<close>

definition ledger :: "timestamp \<Rightarrow> string \<Rightarrow> string \<Rightarrow> real \<Rightarrow> ledger_row" where
  "ledger ts cat cur amt = \<lparr>row_month = ts, account_category = cat, currency = cur, amount = amt\<rparr>"

definition sample_tables :: tables where
  "sample_tables =
     \<lparr>actuals_df =
        [ledger (2025, 5, 1) ''Revenue'' ''USD'' 100,
         ledger (2025, 5, 1) ''COGS'' ''USD'' 40,
         ledger (2025, 6, 1) ''Revenue'' ''EUR'' 200,
         ledger (2025, 6, 1) ''COGS'' ''USD'' 55,
         ledger (2025, 6, 1) ''Opex:Marketing'' ''USD'' 10,
         ledger (2024, 6, 1) ''Revenue'' ''GBP'' 70],
      budget_df =
        [ledger (2025, 6, 1) ''Revenue'' ''USD'' 176,
         ledger (2024, 6, 1) ''Revenue'' ''USD'' 50,
         ledger (2024, 7, 1) ''Revenue'' ''USD'' (- 50)],
      fx_df =
        [\<lparr>fx_month = (2025, 6, 1), fx_currency = ''EUR'', fx_rate_to_usd = 11 / 10\<rparr>],
      cash_df =
        [\<lparr>cash_month = (2025, 3, 1), cash_usd = 900\<rparr>,
         \<lparr>cash_month = (2025, 1, 1), cash_usd = 1500\<rparr>,
         \<lparr>cash_month = (2025, 6, 1), cash_usd = 600\<rparr>,
         \<lparr>cash_month = (2025, 4, 1), cash_usd = 800\<rparr>,
         \<lparr>cash_month = (2025, 5, 1), cash_usd = 700\<rparr>]\<rparr>"

text \<open>A cash history of three periods, and one of four periods in which cash grows.\<close>

definition short_history_tables :: tables where
  "short_history_tables =
     sample_tables\<lparr>cash_df :=
        [\<lparr>cash_month = (2025, 5, 1), cash_usd = 700\<rparr>,
         \<lparr>cash_month = (2025, 4, 1), cash_usd = 800\<rparr>,
         \<lparr>cash_month = (2025, 6, 1), cash_usd = 600\<rparr>]\<rparr>"

definition growing_cash_tables :: tables where
  "growing_cash_tables =
     sample_tables\<lparr>cash_df :=
        [\<lparr>cash_month = (2025, 3, 1), cash_usd = 100\<rparr>,
         \<lparr>cash_month = (2025, 4, 1), cash_usd = 200\<rparr>,
         \<lparr>cash_month = (2025, 6, 1), cash_usd = 400\<rparr>,
         \<lparr>cash_month = (2025, 5, 1), cash_usd = 300\<rparr>]\<rparr>"

chapter \<open>Properties\<close>

section \<open>Facts about the string operations\<close>

lemma contains_iff: "contains sub s \<longleftrightarrow> (\<exists>p t. s = p @ sub @ t)"
proof (induction s)
  case Nil
  then show ?case by auto
next
  case (Cons c cs)
  show ?case
  proof
    assume "contains sub (c # cs)"
    then consider "prefix sub (c # cs)" | "contains sub cs" by auto
    then show "\<exists>p t. c # cs = p @ sub @ t"
    proof cases
      case 1
      then obtain t where "c # cs = sub @ t" by (auto simp: prefix_def)
      then have "c # cs = [] @ sub @ t" by simp
      then show ?thesis by blast
    next
      case 2
      with Cons.IH obtain p t where "cs = p @ sub @ t" by blast
      then have "c # cs = (c # p) @ sub @ t" by simp
      then show ?thesis by blast
    qed
  next
    assume "\<exists>p t. c # cs = p @ sub @ t"
    then obtain p t where pt: "c # cs = p @ sub @ t" by blast
    show "contains sub (c # cs)"
    proof (cases p)
      case Nil
      with pt have "prefix sub (c # cs)" by (simp add: prefix_def)
      then show ?thesis by simp
    next
      case (Cons a p')
      with pt have "cs = p' @ sub @ t" by simp
      with Cons.IH have "contains sub cs" by blast
      then show ?thesis by simp
    qed
  qed
qed

lemma occurs_ci_contains: "occurs_ci kw question = contains kw (lower question)"
proof
  assume "occurs_ci kw question"
  then obtain p w t where "question = p @ w @ t" "lower w = kw"
    by (auto simp: occurs_ci_def)
  then have "lower question = lower p @ kw @ lower t"
    by (simp add: lower_def)
  then show "contains kw (lower question)"
    unfolding contains_iff by blast
next
  assume "contains kw (lower question)"
  then obtain p' t' where "map lower_char question = p' @ kw @ t'"
    unfolding contains_iff lower_def by blast
  then obtain p r where r: "question = p @ r" "kw @ t' = map lower_char r"
    unfolding map_eq_append_conv by blast
  from r(2) obtain w t where "r = w @ t" "kw = map lower_char w"
    unfolding append_eq_map_conv by blast
  with r show "occurs_ci kw question"
    unfolding occurs_ci_def lower_def by blast
qed

lemmas str_eval = lower_def lower_char_def

lemma list_all_upt: "list_all P [0..<n] \<longleftrightarrow> (\<forall>i<n. P i)"
  by (auto simp: list_all_iff)


section \<open>Intent classification\<close>

text \<open>
  Claim C3. \<^verbatim>\<open>classify_intent\<close> follows the fixed first-match-wins priority, matching
  the keywords case-insensitively as substrings: for every question its result is the
  name of the tag that the ordered rule list yields (revenue with budget or vs, then
  margin or gross, then opex or breakdown, then cash, runway or burn, then ebitda, else
  unknown). In particular every question containing both "budget" and "revenue" is
  classified as \<^verbatim>\<open>revenue_vs_budget\<close> whatever else it contains, and "breakdown" alone
  routes to \<^verbatim>\<open>opex_breakdown\<close> when no earlier rule applies.
\<close>

theorem classify_intent_priority:
  "classify_intent question = tag_name (classify_spec question)
   \<and> (occurs_ci ''budget'' question \<and> occurs_ci ''revenue'' question
      \<longrightarrow> classify_intent question = ''revenue_vs_budget'')
   \<and> (occurs_ci ''breakdown'' question
      \<and> \<not> occurs_ci ''revenue'' question \<and> \<not> occurs_ci ''margin'' question
      \<and> \<not> occurs_ci ''gross'' question
      \<longrightarrow> classify_intent question = ''opex_breakdown'')"
  by (simp add: classify_intent_def classify_spec_def priority_rules_def
      occurs_ci_contains Let_def)

theorem classify_intent_priority_witness:
  "occurs_ci ''budget'' ''Gross MARGIN, opex breakdown, cash burn, EBITDA: Revenue on Budget?''
   \<and> occurs_ci ''revenue'' ''Gross MARGIN, opex breakdown, cash burn, EBITDA: Revenue on Budget?''
   \<and> classify_intent ''Gross MARGIN, opex breakdown, cash burn, EBITDA: Revenue on Budget?''
       = ''revenue_vs_budget''
   \<and> occurs_ci ''breakdown'' ''Show the Breakdown''
   \<and> \<not> occurs_ci ''revenue'' ''Show the Breakdown''
   \<and> \<not> occurs_ci ''margin'' ''Show the Breakdown''
   \<and> \<not> occurs_ci ''gross'' ''Show the Breakdown''
   \<and> classify_intent ''Show the Breakdown'' = ''opex_breakdown''"
proof -
  let ?q = "''Gross MARGIN, opex breakdown, cash burn, EBITDA: Revenue on Budget?''"
  let ?b = "''Show the Breakdown''"
  have b: "occurs_ci ''budget'' ?q"
    by (simp add: occurs_ci_contains str_eval)
  have r: "occurs_ci ''revenue'' ?q"
    by (simp add: occurs_ci_contains str_eval)
  from classify_intent_priority [of ?q] b r
  have c: "classify_intent ?q = ''revenue_vs_budget''" by blast
  have h: "occurs_ci ''breakdown'' ?b" "\<not> occurs_ci ''revenue'' ?b"
    "\<not> occurs_ci ''margin'' ?b" "\<not> occurs_ci ''gross'' ?b"
    by (simp_all add: occurs_ci_contains str_eval)
  from classify_intent_priority [of ?b] h
  have "classify_intent ?b = ''opex_breakdown''" by blast
  with b r c h show ?thesis by blast
qed


section \<open>Month and year extraction\<close>

lemma scan_months_first:
  "i < length tbl \<Longrightarrow> contains (fst (tbl ! i)) ql
   \<Longrightarrow> \<forall>j<i. \<not> contains (fst (tbl ! j)) ql
   \<Longrightarrow> scan_months tbl ql = Some (snd (tbl ! i))"
proof (induction tbl arbitrary: i)
  case Nil
  then show ?case by simp
next
  case (Cons e tbl)
  obtain month_name num where e: "e = (month_name, num)" by (cases e)
  show ?case
  proof (cases i)
    case 0
    with Cons.prems e show ?thesis by simp
  next
    case (Suc k)
    from Cons.prems(3) Suc have "\<not> contains (fst ((e # tbl) ! 0)) ql" by blast
    with e have no: "\<not> contains month_name ql" by simp
    have "\<forall>j<k. \<not> contains (fst (tbl ! j)) ql"
    proof (intro allI impI)
      fix j assume "j < k"
      then have "Suc j < i" using Suc by simp
      with Cons.prems(3) have "\<not> contains (fst ((e # tbl) ! Suc j)) ql" by blast
      then show "\<not> contains (fst (tbl ! j)) ql" by simp
    qed
    with Cons.IH [of k] Cons.prems Suc
    have "scan_months tbl ql = Some (snd (tbl ! k))" by simp
    with no e Suc show ?thesis by simp
  qed
qed

lemma scan_months_none:
  "\<forall>e\<in>set tbl. \<not> contains (fst e) ql \<Longrightarrow> scan_months tbl ql = None"
  by (induction tbl) auto

lemma re_search_first:
  "year_token_at q i \<Longrightarrow> \<forall>j<i. \<not> year_token_at q j
   \<Longrightarrow> re_search_20dd q = Some (take 4 (drop i q))"
proof (induction q arbitrary: i)
  case Nil
  then show ?case by (simp add: year_token_at_def)
next
  case (Cons c cs)
  show ?case
  proof (cases i)
    case 0
    with Cons.prems show ?thesis by (simp add: year_token_at_def)
  next
    case (Suc k)
    from Cons.prems(2) Suc have "\<not> year_token_at (c # cs) 0" by blast
    then have no: "\<not> match_20dd (c # cs)" by (simp add: year_token_at_def)
    have k: "year_token_at cs k"
      using Cons.prems(1) Suc by (simp add: year_token_at_def)
    have "\<forall>j<k. \<not> year_token_at cs j"
    proof (intro allI impI)
      fix j assume "j < k"
      then have "Suc j < i" using Suc by simp
      with Cons.prems(2) have "\<not> year_token_at (c # cs) (Suc j)" by blast
      then show "\<not> year_token_at cs j" by (simp add: year_token_at_def)
    qed
    with Cons.IH [OF k] have "re_search_20dd cs = Some (take 4 (drop k cs))" by blast
    with no Suc show ?thesis by simp
  qed
qed

lemma re_search_none:
  "\<forall>i<length q. \<not> year_token_at q i \<Longrightarrow> re_search_20dd q = None"
proof (induction q)
  case Nil
  then show ?case by simp
next
  case (Cons c cs)
  from Cons.prems have "\<not> year_token_at (c # cs) 0" by auto
  then have no: "\<not> match_20dd (c # cs)" by (simp add: year_token_at_def)
  have "\<forall>i<length cs. \<not> year_token_at cs i"
  proof (intro allI impI)
    fix i assume "i < length cs"
    then have "Suc i < length (c # cs)" by simp
    with Cons.prems have "\<not> year_token_at (c # cs) (Suc i)" by blast
    then show "\<not> year_token_at cs i" by (simp add: year_token_at_def)
  qed
  with Cons.IH no show ?case by simp
qed

lemma is_digit_cases:
  "is_digit c \<longleftrightarrow> c = CHR ''0'' \<or> c = CHR ''1'' \<or> c = CHR ''2'' \<or> c = CHR ''3'' \<or> c = CHR ''4''
     \<or> c = CHR ''5'' \<or> c = CHR ''6'' \<or> c = CHR ''7'' \<or> c = CHR ''8'' \<or> c = CHR ''9''"
  by (simp add: is_digit_def)

lemma match_20dd_shape:
  "match_20dd s \<Longrightarrow> \<exists>c d rest. s = CHR ''2'' # CHR ''0'' # c # d # rest \<and> is_digit c \<and> is_digit d"
  by (induction s rule: match_20dd.induct) auto

lemma py_int_20dd:
  "py_int [CHR ''2'', CHR ''0'', c, d] = 2000 + 10 * digit_val c + digit_val d"
  by (simp add: py_int_def digit_val_def)

lemma digit_val_range: "is_digit c \<Longrightarrow> 0 \<le> digit_val c \<and> digit_val c \<le> 9"
  by (auto simp: is_digit_cases digit_val_def)

lemma digits_digit_val: "is_digit c \<Longrightarrow> ''0123456789'' ! nat (digit_val c) = c"
  by (auto simp: is_digit_cases digit_val_def)

lemma str_int_20dd:
  assumes "is_digit c" "is_digit d"
  shows "str_int (2000 + 10 * digit_val c + digit_val d) = [CHR ''2'', CHR ''0'', c, d]"
proof -
  define a where "a = nat (digit_val c)"
  define b where "b = nat (digit_val d)"
  have a: "a < 10" "''0123456789'' ! a = c" and b: "b < 10" "''0123456789'' ! b = d"
    using assms digit_val_range [of c] digit_val_range [of d]
      digits_digit_val [of c] digits_digit_val [of d]
    unfolding a_def b_def by linarith+
  have n: "nat (2000 + 10 * digit_val c + digit_val d) = 2000 + 10 * a + b"
    using assms digit_val_range [of c] digit_val_range [of d] by (simp add: a_def b_def nat_add_distrib nat_mult_distrib)
  have e1: "2000 + 10 * a + b = 10 * (200 + a) + b" and e2: "200 + a = 10 * 20 + a"
    by simp_all
  have gb: "(10 * k + b) mod 10 = b" "(10 * k + b) div 10 = k" for k
    using b(1) by simp_all
  have ga: "(10 * k + a) mod 10 = a" "(10 * k + a) div 10 = k" for k
    using a(1) by simp_all
  have d1: "(2000 + 10 * a + b) mod 10 = b" "(2000 + 10 * a + b) div 10 = 200 + a"
    by (simp_all only: e1 gb)
  have d2: "(200 + a) mod 10 = a" "(200 + a) div 10 = 20"
    by (simp_all only: e2 ga)
  have "digits (2000 + 10 * a + b) = digits (200 + a) @ [d]"
    using d1 b(2) by (subst digits.simps) simp
  also have "digits (200 + a) = digits 20 @ [c]"
    using d2 a(2) by (subst digits.simps) simp
  also have "digits 20 = ''20''" by code_simp
  finally have "digits (2000 + 10 * a + b) = [CHR ''2'', CHR ''0'', c, d]" by simp
  moreover have "\<not> 2000 + 10 * digit_val c + digit_val d < 0"
    using assms digit_val_range [of c] digit_val_range [of d] by simp
  ultimately show ?thesis
    using n by (simp add: str_int_def)
qed


lemma month_mapping_length: "length month_mapping = 23"
  by (simp add: month_mapping_def)


text \<open>
  Claim C4. The month returned by \<^verbatim>\<open>extract_month_year\<close> is decided by the order of the
  month table, not by the position in the text: it is the number of the first entry of
  the table whose name occurs in the question (case-insensitively, as a substring), and
  \<open>None\<close> when no entry's name occurs.
\<close>

theorem extract_month_table_order:
  "(\<forall>i<length month_mapping.
      occurs_ci (fst (month_mapping ! i)) question
      \<and> (\<forall>j<i. \<not> occurs_ci (fst (month_mapping ! j)) question)
      \<longrightarrow> fst (extract_month_year question) = Some (snd (month_mapping ! i)))
   \<and> ((\<forall>e\<in>set month_mapping. \<not> occurs_ci (fst e) question)
      \<longrightarrow> fst (extract_month_year question) = None)"
  by (simp add: extract_month_year_def Let_def occurs_ci_contains
      scan_months_first scan_months_none)

theorem extract_month_table_order_witness:
  "(4::nat) < length month_mapping
   \<and> month_mapping ! 4 = (''march'', 3)
   \<and> occurs_ci ''march'' ''May vs March 2024''
   \<and> list_all (\<lambda>j. \<not> occurs_ci (fst (month_mapping ! j)) ''May vs March 2024'') [0..<4]
   \<and> fst (extract_month_year ''May vs March 2024'') = Some 3
   \<and> list_all (\<lambda>e. \<not> occurs_ci (fst e) ''Current month'') month_mapping
   \<and> fst (extract_month_year ''Current month'') = None"
proof -
  let ?q = "''May vs March 2024''"
  have l: "(4::nat) < length month_mapping"
    by (simp add: month_mapping_length)
  have e: "month_mapping ! 4 = (''march'', 3)"
    by (simp add: month_mapping_def)
  have o: "occurs_ci ''march'' ?q"
    by (simp add: occurs_ci_contains str_eval)
  have n: "list_all (\<lambda>j. \<not> occurs_ci (fst (month_mapping ! j)) ?q) [0..<4]"
    by (simp add: upt_rec month_mapping_def occurs_ci_contains str_eval)
  then have n': "\<forall>j<4. \<not> occurs_ci (fst (month_mapping ! j)) ?q"
    by (simp only: list_all_upt)
  from extract_month_table_order [of ?q] l o n' e
  have "fst (extract_month_year ?q) = Some (snd (month_mapping ! 4))" by simp
  with e have r: "fst (extract_month_year ?q) = Some 3" by simp
  have m: "list_all (\<lambda>e. \<not> occurs_ci (fst e) ''Current month'') month_mapping"
    by (simp add: month_mapping_def occurs_ci_contains str_eval)
  then have "\<forall>e\<in>set month_mapping. \<not> occurs_ci (fst e) ''Current month''"
    by (simp add: list_all_iff)
  with extract_month_table_order [of "''Current month''"]
  have "fst (extract_month_year ''Current month'') = None" by blast
  with l e o n r m show ?thesis by blast
qed

text \<open>
  In "May vs March 2024" the leftmost month name is "May", yet the answer is 3: "march"
  precedes "may" in the table.
\<close>

lemma extract_month_not_leftmost:
  "extract_month_year ''May vs March 2024'' = (Some 3, 2024)"
  by (simp add: extract_month_year_def month_mapping_def str_eval py_int_def digit_val_def is_digit_def)


text \<open>
  Claim C8. The year returned by \<^verbatim>\<open>extract_month_year\<close> is the leftmost block of the form
  \<^verbatim>\<open>20dd\<close> found anywhere in the text, read as a number (so that printing the year gives
  the block back verbatim, and the year lies between 2000 and 2099), and the fixed
  default 2025 when the text holds no such block.
\<close>

theorem extract_year_first_token:
  "(year_token_at question i \<and> (\<forall>j<i. \<not> year_token_at question j)
      \<longrightarrow> snd (extract_month_year question) = py_int (take 4 (drop i question))
        \<and> str_int (snd (extract_month_year question)) = take 4 (drop i question)
        \<and> 2000 \<le> snd (extract_month_year question)
        \<and> snd (extract_month_year question) \<le> 2099)
   \<and> ((\<forall>i<length question. \<not> year_token_at question i)
      \<longrightarrow> snd (extract_month_year question) = 2025)"
proof (intro conjI impI)
  assume "\<forall>i<length question. \<not> year_token_at question i"
  then show "snd (extract_month_year question) = 2025"
    by (simp add: extract_month_year_def Let_def re_search_none)
next
  assume a: "year_token_at question i \<and> (\<forall>j<i. \<not> year_token_at question j)"
  then have s: "re_search_20dd question = Some (take 4 (drop i question))"
    using re_search_first by blast
  then have y: "snd (extract_month_year question) = py_int (take 4 (drop i question))"
    by (simp add: extract_month_year_def Let_def)
  from a obtain c d rest where
    sh: "drop i question = CHR ''2'' # CHR ''0'' # c # d # rest" "is_digit c" "is_digit d"
    using match_20dd_shape unfolding year_token_at_def by blast
  then have t: "take 4 (drop i question) = [CHR ''2'', CHR ''0'', c, d]" by simp
  show "snd (extract_month_year question) = py_int (take 4 (drop i question))"
    by (rule y)
  show "str_int (snd (extract_month_year question)) = take 4 (drop i question)"
    using sh(2,3) by (simp only: y t py_int_20dd str_int_20dd)
  show "2000 \<le> snd (extract_month_year question)"
    using digit_val_range [OF sh(2)] digit_val_range [OF sh(3)]
    by (simp only: y t py_int_20dd) linarith
  show "snd (extract_month_year question) \<le> 2099"
    using digit_val_range [OF sh(2)] digit_val_range [OF sh(3)]
    by (simp only: y t py_int_20dd) linarith
qed

theorem extract_year_first_token_witness:
  "year_token_at ''FY120256 vs 2031'' 3
   \<and> list_all (\<lambda>j. \<not> year_token_at ''FY120256 vs 2031'' j) [0..<3]
   \<and> snd (extract_month_year ''FY120256 vs 2031'') = 2025
   \<and> str_int (snd (extract_month_year ''FY120256 vs 2031'')) = ''2025''
   \<and> list_all (\<lambda>i. \<not> year_token_at ''in 1920'' i) [0..<length ''in 1920'']
   \<and> snd (extract_month_year ''in 1920'') = 2025"
proof -
  let ?q = "''FY120256 vs 2031''"
  have t: "year_token_at ?q 3"
    by (simp add: year_token_at_def is_digit_def)
  have n: "list_all (\<lambda>j. \<not> year_token_at ?q j) [0..<3]"
    by (simp add: upt_rec year_token_at_def)
  then have n': "\<forall>j<3. \<not> year_token_at ?q j"
    by (simp only: list_all_upt)
  from extract_year_first_token [of ?q 3] t n'
  have c: "snd (extract_month_year ?q) = py_int (take 4 (drop 3 ?q))"
    "str_int (snd (extract_month_year ?q)) = take 4 (drop 3 ?q)" by blast+
  have r: "snd (extract_month_year ?q) = 2025"
    "str_int (snd (extract_month_year ?q)) = ''2025''"
    using c(1) apply (simp add: py_int_def digit_val_def)
    using c(2) apply simp
    done
  have m: "list_all (\<lambda>i. \<not> year_token_at ''in 1920'' i) [0..<length ''in 1920'']"
    by (simp add: upt_rec year_token_at_def)
  then have "\<forall>i<length ''in 1920''. \<not> year_token_at ''in 1920'' i"
    by (simp only: list_all_upt)
  with extract_year_first_token [of "''in 1920''"]
  have "snd (extract_month_year ''in 1920'') = 2025" by blast
  with t n r m show ?thesis by blast
qed

section \<open>Evaluating the sample tables\<close>

lemmas sample_eval =
  sample_tables_def ledger_def revenue_total_def period_selected_def truthy_def
  convert_to_usd_def merge_left_def with_usd_def fillna_def sum_amount_usd_def
  strftime_Ym_def dt_year_def dt_month_def str_int_def fmt_02d_def

lemma digits_2025: "digits 2025 = ''2025''" and digits_2024: "digits 2024 = ''2024''"
  and digits_5: "digits 5 = ''5''" and digits_6: "digits 6 = ''6''" and digits_7: "digits 7 = ''7''"
  by code_simp+

lemmas digits_eval = digits_2025 digits_2024 digits_5 digits_6 digits_7


section \<open>Currency normalisation\<close>

lemma filter_unique_key:
  "distinct (map k xs) \<Longrightarrow>
   filter (\<lambda>x. k x = a) xs = (case find (\<lambda>x. k x = a) xs of None \<Rightarrow> [] | Some x \<Rightarrow> [x])"
proof (induction xs)
  case Nil
  then show ?case by simp
next
  case (Cons x xs)
  show ?case
  proof (cases "k x = a")
    case True
    with Cons.prems have "a \<notin> k ` set xs" by auto
    then have "filter (\<lambda>x. k x = a) xs = []"
      by (auto simp: filter_empty_conv)
    with True show ?thesis by simp
  next
    case False
    with Cons show ?thesis by simp
  qed
qed

lemma merge_left_unique:
  assumes "distinct (map fx_key fx)"
  shows "merge_left df fx = map (\<lambda>r. (r, fx_rate_for fx (row_month r) (currency r))) df"
proof -
  have key: "(\<lambda>f. fx_month f = p \<and> fx_currency f = c) = (\<lambda>f. fx_key f = (p, c))" for p c
    by (auto simp: fx_key_def)
  have one: "(case filter (\<lambda>f. fx_month f = row_month r \<and> fx_currency f = currency r) fx of
                [] \<Rightarrow> [(r, None)]
              | partners \<Rightarrow> map (\<lambda>f. (r, Some (fx_rate_to_usd f))) partners)
             = [(r, fx_rate_for fx (row_month r) (currency r))]" for r
    unfolding fx_rate_for_def key filter_unique_key [OF assms]
    by (simp split: option.splits)
  show ?thesis
    unfolding merge_left_def one by (induction df) simp_all
qed

lemma convert_to_usd_product:
  "out \<in> set (convert_to_usd fx df) \<Longrightarrow> amount_usd out = amount out * rate_to_usd out"
  by (auto simp: convert_to_usd_def with_usd_def)


lemma convert_to_usd_rate_source:
  assumes "out \<in> set (convert_to_usd fx df)"
  shows "(\<exists>f\<in>set fx. fx_month f = row_month out \<and> fx_currency f = currency out
                      \<and> rate_to_usd out = fx_rate_to_usd f)
         \<or> ((\<forall>f\<in>set fx. \<not> (fx_month f = row_month out \<and> fx_currency f = currency out))
             \<and> rate_to_usd out = 1)"
proof -
  from assms obtain r rate where
    rr: "(r, rate) \<in> set (merge_left df fx)" and out: "out = with_usd r (fillna 1 rate)"
    by (auto simp: convert_to_usd_def)
  let ?partners = "filter (\<lambda>f. fx_month f = row_month r \<and> fx_currency f = currency r) fx"
  from rr obtain r' where r': "r' \<in> set df"
    and in_r: "(r, rate) \<in> set (case filter (\<lambda>f. fx_month f = row_month r' \<and> fx_currency f = currency r') fx of
          [] \<Rightarrow> [(r', None)]
        | partners \<Rightarrow> map (\<lambda>f. (r', Some (fx_rate_to_usd f))) partners)"
    by (auto simp: merge_left_def)
  have same: "r' = r"
    using in_r by (auto split: list.splits)
  show ?thesis
  proof (cases ?partners)
    case Nil
    with in_r same have "rate = None" by simp
    moreover from Nil have "\<forall>f\<in>set fx. \<not> (fx_month f = row_month r \<and> fx_currency f = currency r)"
      by (simp add: filter_empty_conv)
    ultimately show ?thesis
      by (simp add: out with_usd_def fillna_def)
  next
    case (Cons p ps)
    with in_r same obtain f where f: "f \<in> set ?partners" "rate = Some (fx_rate_to_usd f)"
      by auto
    then have "f \<in> set fx" "fx_month f = row_month r" "fx_currency f = currency r"
      by simp_all
    with f(2) show ?thesis
      by (auto simp: out with_usd_def fillna_def)
  qed
qed

lemma convert_to_usd_keeps_rows:
  assumes "r \<in> set df"
  shows "\<exists>out\<in>set (convert_to_usd fx df).
           row_month out = row_month r \<and> account_category out = account_category r
           \<and> currency out = currency r \<and> amount out = amount r"
proof -
  let ?partners = "filter (\<lambda>f. fx_month f = row_month r \<and> fx_currency f = currency r) fx"
  have "\<exists>rate. (r, rate) \<in> set (case ?partners of [] \<Rightarrow> [(r, None)]
        | partners \<Rightarrow> map (\<lambda>f. (r, Some (fx_rate_to_usd f))) partners)"
    by (cases ?partners) auto
  then obtain rate where "(r, rate) \<in> set (merge_left df fx)"
    using assms unfolding merge_left_def by auto
  then have "with_usd r (fillna 1 rate) \<in> set (convert_to_usd fx df)"
    unfolding convert_to_usd_def by force
  then show ?thesis
    by (rule rev_bexI) (simp add: with_usd_def)
qed


text \<open>
  Claim C9. Currency normalisation gives every row \<open>amount_usd = amount * rate_to_usd\<close>,
  where the rate is that of an FX row with exactly the row's period and currency when
  there is one, and 1.0 when none matches; every input row is kept. A missing rate is
  not an error: the function is total, and the row is kept with the rate 1.0. When the
  FX table has at most one rate per (period, currency) pair, every input row yields
  exactly one output row, in the same order, with the table's rate for its pair or 1.0.
\<close>

theorem convert_to_usd_rates:
  "(\<forall>out\<in>set (convert_to_usd fx df).
      amount_usd out = amount out * rate_to_usd out
      \<and> ((\<exists>f\<in>set fx. fx_month f = row_month out \<and> fx_currency f = currency out
                        \<and> rate_to_usd out = fx_rate_to_usd f)
         \<or> ((\<forall>f\<in>set fx. \<not> (fx_month f = row_month out \<and> fx_currency f = currency out))
             \<and> rate_to_usd out = 1)))
   \<and> (\<forall>r\<in>set df. \<exists>out\<in>set (convert_to_usd fx df).
          row_month out = row_month r \<and> account_category out = account_category r
          \<and> currency out = currency r \<and> amount out = amount r)
   \<and> (distinct (map fx_key fx) \<longrightarrow>
        convert_to_usd fx df = map (\<lambda>r. with_usd r (rate_or_default fx r)) df
        \<and> length (convert_to_usd fx df) = length df
        \<and> (\<forall>i<length df.
              rate_to_usd (convert_to_usd fx df ! i) = rate_or_default fx (df ! i)
              \<and> amount_usd (convert_to_usd fx df ! i)
                  = amount (df ! i) * rate_or_default fx (df ! i)))"
proof (intro conjI impI ballI)
  fix out assume "out \<in> set (convert_to_usd fx df)"
  then show "amount_usd out = amount out * rate_to_usd out"
    and "(\<exists>f\<in>set fx. fx_month f = row_month out \<and> fx_currency f = currency out
                        \<and> rate_to_usd out = fx_rate_to_usd f)
         \<or> ((\<forall>f\<in>set fx. \<not> (fx_month f = row_month out \<and> fx_currency f = currency out))
             \<and> rate_to_usd out = 1)"
    by (rule convert_to_usd_product, rule convert_to_usd_rate_source)
next
  fix r assume "r \<in> set df"
  then show "\<exists>out\<in>set (convert_to_usd fx df).
          row_month out = row_month r \<and> account_category out = account_category r
          \<and> currency out = currency r \<and> amount out = amount r"
    by (rule convert_to_usd_keeps_rows)
next
  assume d: "distinct (map fx_key fx)"
  show eq: "convert_to_usd fx df = map (\<lambda>r. with_usd r (rate_or_default fx r)) df"
    unfolding convert_to_usd_def merge_left_unique [OF d]
    by (simp add: rate_or_default_def fillna_def o_def)
  show "length (convert_to_usd fx df) = length df"
    by (simp add: eq)
  show "\<forall>i<length df.
          rate_to_usd (convert_to_usd fx df ! i) = rate_or_default fx (df ! i)
          \<and> amount_usd (convert_to_usd fx df ! i) = amount (df ! i) * rate_or_default fx (df ! i)"
    by (simp add: eq with_usd_def)
qed

theorem convert_to_usd_rates_witness:
  "distinct (map fx_key (fx_df sample_tables))
   \<and> length (convert_to_usd (fx_df sample_tables) (actuals_df sample_tables)) = 6
   \<and> map rate_to_usd (convert_to_usd (fx_df sample_tables) (actuals_df sample_tables))
       = [1, 1, 11 / 10, 1, 1, 1]
   \<and> map amount_usd (convert_to_usd (fx_df sample_tables) (actuals_df sample_tables))
       = [100, 40, 220, 55, 10, 70]"
proof -
  let ?fx = "fx_df sample_tables"
  let ?df = "actuals_df sample_tables"
  have d: "distinct (map fx_key ?fx)"
    by (simp add: sample_tables_def fx_key_def)
  with convert_to_usd_rates [of ?fx ?df]
  have eq: "convert_to_usd ?fx ?df = map (\<lambda>r. with_usd r (rate_or_default ?fx r)) ?df"
    by blast
  have l: "length (convert_to_usd ?fx ?df) = 6"
    unfolding eq by (simp add: sample_tables_def)
  have r: "map rate_to_usd (convert_to_usd ?fx ?df) = [1, 1, 11 / 10, 1, 1, 1]"
    unfolding eq
    by (simp add: sample_tables_def ledger_def with_usd_def rate_or_default_def fx_rate_for_def)
  have a: "map amount_usd (convert_to_usd ?fx ?df) = [100, 40, 220, 55, 10, 70]"
    unfolding eq
    by (simp add: sample_tables_def ledger_def with_usd_def rate_or_default_def fx_rate_for_def)
  from d l r a show ?thesis by blast
qed


section \<open>Revenue against budget\<close>

lemma get_revenue_vs_budget_try_eq:
  "get_revenue_vs_budget_try self month year =
     Inr \<lparr>actual = revenue_total (fx_df self) month year (actuals_df self),
          budget = revenue_total (fx_df self) month year (budget_df self),
          variance = revenue_total (fx_df self) month year (actuals_df self)
                     - revenue_total (fx_df self) month year (budget_df self),
          variance_pct =
            (if revenue_total (fx_df self) month year (budget_df self) \<noteq> 0
             then (revenue_total (fx_df self) month year (actuals_df self)
                   - revenue_total (fx_df self) month year (budget_df self))
                  / revenue_total (fx_df self) month year (budget_df self) * 100
             else 0)\<rparr>"
  by (simp add: get_revenue_vs_budget_try_def revenue_total_def period_selected_def
      Let_def and_then_def py_truediv_def conj_commute)


lemma get_revenue_vs_budget_eq:
  "get_revenue_vs_budget_try self month year = Inr (get_revenue_vs_budget self month year)"
  by (simp add: get_revenue_vs_budget_def get_revenue_vs_budget_try_eq)


text \<open>
  Claim C5. \<^verbatim>\<open>get_revenue_vs_budget\<close> never leaves its \<^verbatim>\<open>try\<close> block through an
  exception, division by zero included: with a budget sum of exactly 0 the variance
  percentage it returns is 0, and with a nonzero budget sum it is
  \<open>(actual - budget) / budget * 100\<close>. The budget and actual sums are the USD totals of
  the selected Revenue rows.
\<close>

theorem get_revenue_vs_budget_variance_pct:
  "get_revenue_vs_budget_try self month year = Inr (get_revenue_vs_budget self month year)
   \<and> actual (get_revenue_vs_budget self month year)
       = revenue_total (fx_df self) month year (actuals_df self)
   \<and> budget (get_revenue_vs_budget self month year)
       = revenue_total (fx_df self) month year (budget_df self)
   \<and> (budget (get_revenue_vs_budget self month year) = 0
        \<longrightarrow> variance_pct (get_revenue_vs_budget self month year) = 0)
   \<and> (budget (get_revenue_vs_budget self month year) \<noteq> 0
        \<longrightarrow> variance_pct (get_revenue_vs_budget self month year)
            = (actual (get_revenue_vs_budget self month year)
               - budget (get_revenue_vs_budget self month year))
              / budget (get_revenue_vs_budget self month year) * 100)"
  by (simp add: get_revenue_vs_budget_def get_revenue_vs_budget_try_eq)

theorem get_revenue_vs_budget_variance_pct_witness:
  "budget (get_revenue_vs_budget sample_tables None (Some 2024)) = 0
   \<and> variance_pct (get_revenue_vs_budget sample_tables None (Some 2024)) = 0
   \<and> actual (get_revenue_vs_budget sample_tables (Some 6) (Some 2025)) = 220
   \<and> budget (get_revenue_vs_budget sample_tables (Some 6) (Some 2025)) = 176
   \<and> budget (get_revenue_vs_budget sample_tables (Some 6) (Some 2025)) \<noteq> 0
   \<and> variance_pct (get_revenue_vs_budget sample_tables (Some 6) (Some 2025)) = 25"
proof -
  let ?z = "get_revenue_vs_budget sample_tables None (Some 2024)"
  let ?j = "get_revenue_vs_budget sample_tables (Some 6) (Some 2025)"
  note z = get_revenue_vs_budget_variance_pct [of sample_tables None "Some 2024"]
  note j = get_revenue_vs_budget_variance_pct [of sample_tables "Some 6" "Some 2025"]
  have bz: "budget ?z = 0"
    using z by (simp add: sample_eval)
  with z have vz: "variance_pct ?z = 0" by blast
  have aj: "actual ?j = 220"
    using j by (simp add: sample_eval digits_eval)
  have bj: "budget ?j = 176"
    using j by (simp add: sample_eval digits_eval)
  then have nz: "budget ?j \<noteq> 0" by simp
  with j have "variance_pct ?j = (actual ?j - budget ?j) / budget ?j * 100" by blast
  then have vj: "variance_pct ?j = 25" by (simp add: aj bj)
  from bz vz aj bj nz vj show ?thesis by blast
qed



section \<open>The month filter needs the year\<close>

lemma get_opex_breakdown_eq:
  "get_opex_breakdown self month year = opex_breakdown_of (fx_df self) month year (actuals_df self)"
  by (simp add: get_opex_breakdown_def opex_breakdown_of_def period_selected_def Let_def
      conj_commute)

lemma get_revenue_vs_budget_totals:
  "get_revenue_vs_budget self month year =
     \<lparr>actual = revenue_total (fx_df self) month year (actuals_df self),
      budget = revenue_total (fx_df self) month year (budget_df self),
      variance = revenue_total (fx_df self) month year (actuals_df self)
                 - revenue_total (fx_df self) month year (budget_df self),
      variance_pct =
        (if revenue_total (fx_df self) month year (budget_df self) \<noteq> 0
         then (revenue_total (fx_df self) month year (actuals_df self)
               - revenue_total (fx_df self) month year (budget_df self))
              / revenue_total (fx_df self) month year (budget_df self) * 100
         else 0)\<rparr>"
  by (simp add: get_revenue_vs_budget_def get_revenue_vs_budget_try_eq)

lemma period_selected_no_year: "period_selected month None ts"
  by (simp add: period_selected_def truthy_def)

lemma period_selected_year_only:
  "year \<noteq> 0 \<Longrightarrow> period_selected None (Some year) ts \<longleftrightarrow> dt_year ts = year"
  by (simp add: period_selected_def truthy_def)


text \<open>
  Printing a number and reading it back: the two sides of the comparison of
  \<^verbatim>\<open>strftime('%Y-%m')\<close> with \<^verbatim>\<open>f"{year}-{month:02d}"\<close> are equal exactly when the years
  and the months are.
\<close>

lemma digit_table:
  "\<forall>d<10. digit_val (''0123456789'' ! d) = int d \<and> is_digit (''0123456789'' ! d)"
  by (simp add: numeral_eq_Suc All_less_Suc digit_val_def is_digit_def)

lemma digit_table_nth:
  assumes "d < 10"
  shows "digit_val (''0123456789'' ! d) = int d" and "is_digit (''0123456789'' ! d)"
  using assms digit_table by blast+

lemma py_int_snoc: "py_int (s @ [c]) = 10 * py_int s + digit_val c"
  by (simp add: py_int_def)

lemma py_int_digits: "py_int (digits n) = int n"
proof (induction n rule: digits.induct)
  case (1 n)
  show ?case
  proof (cases "n < 10")
    case True
    then have "digits n = [''0123456789'' ! n]" by (subst digits.simps) simp
    with True show ?thesis by (simp add: py_int_def digit_table_nth)
  next
    case False
    then have d: "digits n = digits (n div 10) @ [''0123456789'' ! (n mod 10)]"
      by (subst digits.simps) simp
    have "n mod 10 < 10" by simp
    then have "digit_val (''0123456789'' ! (n mod 10)) = int (n mod 10)"
      by (rule digit_table_nth)
    with 1 False have "py_int (digits n) = 10 * int (n div 10) + int (n mod 10)"
      by (simp add: d py_int_snoc)
    then show ?thesis by (simp add: zdiv_int zmod_int)
  qed
qed

lemma digits_are_digits: "c \<in> set (digits n) \<Longrightarrow> is_digit c"
proof (induction n rule: digits.induct)
  case (1 n)
  show ?case
  proof (cases "n < 10")
    case True
    then have "digits n = [''0123456789'' ! n]" by (subst digits.simps) simp
    with True "1.prems" show ?thesis by (simp add: digit_table_nth)
  next
    case False
    then have d: "digits n = digits (n div 10) @ [''0123456789'' ! (n mod 10)]"
      by (subst digits.simps) simp
    have "is_digit (''0123456789'' ! (n mod 10))"
      by (rule digit_table_nth) simp
    with 1 False d show ?thesis by auto
  qed
qed

lemma digits_no_dash: "CHR ''-'' \<notin> set (digits n)"
  using digits_are_digits [of "CHR ''-''" n] by (auto simp: is_digit_def)

lemma split_at_first:
  "c \<notin> set a \<Longrightarrow> c \<notin> set a' \<Longrightarrow> a @ c # b = a' @ c # b' \<Longrightarrow> a = a' \<and> b = b'"
proof (induction a arbitrary: a')
  case Nil
  then show ?case by (cases a') auto
next
  case (Cons x a)
  then show ?case by (cases a') auto
qed

lemma py_int_str_int: "0 \<le> i \<Longrightarrow> py_int (str_int i) = i"
  by (simp add: str_int_def py_int_digits)

lemma py_int_fmt_02d: "0 \<le> i \<Longrightarrow> py_int (fmt_02d i) = i"
proof -
  assume i: "0 \<le> i"
  have z: "py_int (CHR ''0'' # t) = py_int t" for t
    by (simp add: py_int_def digit_val_def)
  from i show ?thesis
    by (simp add: fmt_02d_def Let_def z py_int_str_int)
qed

lemma period_selected_month_and_year:
  assumes "0 < m" "0 < y" "0 \<le> dt_year ts" "0 \<le> dt_month ts"
  shows "period_selected (Some m) (Some y) ts \<longleftrightarrow> dt_year ts = y \<and> dt_month ts = m"
proof
  assume "dt_year ts = y \<and> dt_month ts = m"
  with assms show "period_selected (Some m) (Some y) ts"
    by (simp add: period_selected_def truthy_def strftime_Ym_def)
next
  assume "period_selected (Some m) (Some y) ts"
  with assms have eq: "str_int (dt_year ts) @ CHR ''-'' # fmt_02d (dt_month ts)
                       = str_int y @ CHR ''-'' # fmt_02d m"
    by (simp add: period_selected_def truthy_def strftime_Ym_def)
  have "CHR ''-'' \<notin> set (str_int (dt_year ts))" "CHR ''-'' \<notin> set (str_int y)"
    using assms by (simp_all add: str_int_def digits_no_dash)
  from split_at_first [OF this eq]
  have "str_int (dt_year ts) = str_int y" "fmt_02d (dt_month ts) = fmt_02d m" by simp_all
  then have "py_int (str_int (dt_year ts)) = py_int (str_int y)"
    "py_int (fmt_02d (dt_month ts)) = py_int (fmt_02d m)" by simp_all
  with assms show "dt_year ts = y \<and> dt_month ts = m"
    by (simp add: py_int_str_int py_int_fmt_02d)
qed


text \<open>
  Claim C10. Calling \<^verbatim>\<open>get_revenue_vs_budget\<close> or \<^verbatim>\<open>get_opex_breakdown\<close> with a month but
  no year applies no period filter at all: the result is the one for no month and no
  year, computed over every Revenue (respectively Opex) row. More generally the month
  is ignored unless both month and year are supplied (and nonzero), and a year alone
  filters to the rows of that year. (With both supplied the rows of that month of that
  year are selected: \<open>period_selected_month_and_year\<close>.)
\<close>

theorem month_without_year_is_no_filter:
  "get_revenue_vs_budget self (Some m) None = get_revenue_vs_budget self None None
   \<and> get_opex_breakdown self (Some m) None = get_opex_breakdown self None None
   \<and> actual (get_revenue_vs_budget self (Some m) None)
       = sum_amount_usd (convert_to_usd (fx_df self)
           (filter (\<lambda>r. account_category r = ''Revenue'') (actuals_df self)))
   \<and> budget (get_revenue_vs_budget self (Some m) None)
       = sum_amount_usd (convert_to_usd (fx_df self)
           (filter (\<lambda>r. account_category r = ''Revenue'') (budget_df self)))
   \<and> get_opex_breakdown self (Some m) None
       = groupby_sum (convert_to_usd (fx_df self)
           (filter (\<lambda>r. startswith (account_category r) ''Opex:'') (actuals_df self)))
   \<and> (\<not> (truthy month \<and> truthy year) \<longrightarrow>
         get_revenue_vs_budget self month year = get_revenue_vs_budget self None year
         \<and> get_opex_breakdown self month year = get_opex_breakdown self None year)
   \<and> (y \<noteq> 0 \<longrightarrow>
         actual (get_revenue_vs_budget self None (Some y))
           = sum_amount_usd (convert_to_usd (fx_df self)
               (filter (\<lambda>r. account_category r = ''Revenue'' \<and> dt_year (row_month r) = y)
                  (actuals_df self)))
         \<and> budget (get_revenue_vs_budget self None (Some y))
           = sum_amount_usd (convert_to_usd (fx_df self)
               (filter (\<lambda>r. account_category r = ''Revenue'' \<and> dt_year (row_month r) = y)
                  (budget_df self)))
         \<and> get_opex_breakdown self None (Some y)
           = groupby_sum (convert_to_usd (fx_df self)
               (filter (\<lambda>r. startswith (account_category r) ''Opex:''
                            \<and> dt_year (row_month r) = y) (actuals_df self))))"
proof -
  have sel: "\<not> (truthy month \<and> truthy year) \<Longrightarrow>
             period_selected month year = period_selected None year" for month year
    by (auto simp: period_selected_def truthy_def fun_eq_iff)
  have a: "get_revenue_vs_budget self (Some m) None = get_revenue_vs_budget self None None"
    by (simp add: get_revenue_vs_budget_totals revenue_total_def period_selected_no_year)
  have b: "get_opex_breakdown self (Some m) None = get_opex_breakdown self None None"
    by (simp add: get_opex_breakdown_eq opex_breakdown_of_def period_selected_no_year)
  have c: "actual (get_revenue_vs_budget self (Some m) None)
       = sum_amount_usd (convert_to_usd (fx_df self)
           (filter (\<lambda>r. account_category r = ''Revenue'') (actuals_df self)))"
    by (simp add: get_revenue_vs_budget_totals revenue_total_def period_selected_no_year)
  have d: "budget (get_revenue_vs_budget self (Some m) None)
       = sum_amount_usd (convert_to_usd (fx_df self)
           (filter (\<lambda>r. account_category r = ''Revenue'') (budget_df self)))"
    by (simp add: get_revenue_vs_budget_totals revenue_total_def period_selected_no_year)
  have e: "get_opex_breakdown self (Some m) None
       = groupby_sum (convert_to_usd (fx_df self)
           (filter (\<lambda>r. startswith (account_category r) ''Opex:'') (actuals_df self)))"
    by (simp add: get_opex_breakdown_eq opex_breakdown_of_def period_selected_no_year)
  have f: "\<not> (truthy month \<and> truthy year) \<longrightarrow>
         get_revenue_vs_budget self month year = get_revenue_vs_budget self None year
         \<and> get_opex_breakdown self month year = get_opex_breakdown self None year"
    by (simp add: get_revenue_vs_budget_totals get_opex_breakdown_eq revenue_total_def
        opex_breakdown_of_def sel)
  have g: "y \<noteq> 0 \<longrightarrow>
         actual (get_revenue_vs_budget self None (Some y))
           = sum_amount_usd (convert_to_usd (fx_df self)
               (filter (\<lambda>r. account_category r = ''Revenue'' \<and> dt_year (row_month r) = y)
                  (actuals_df self)))
         \<and> budget (get_revenue_vs_budget self None (Some y))
           = sum_amount_usd (convert_to_usd (fx_df self)
               (filter (\<lambda>r. account_category r = ''Revenue'' \<and> dt_year (row_month r) = y)
                  (budget_df self)))
         \<and> get_opex_breakdown self None (Some y)
           = groupby_sum (convert_to_usd (fx_df self)
               (filter (\<lambda>r. startswith (account_category r) ''Opex:''
                            \<and> dt_year (row_month r) = y) (actuals_df self)))"
    by (simp add: get_revenue_vs_budget_totals get_opex_breakdown_eq revenue_total_def
        opex_breakdown_of_def period_selected_year_only)
  from a b c d e f g show ?thesis by blast
qed


theorem month_without_year_is_no_filter_witness:
  "actual (get_revenue_vs_budget sample_tables (Some 6) None) = 390
   \<and> budget (get_revenue_vs_budget sample_tables (Some 6) None) = 176
   \<and> get_opex_breakdown sample_tables (Some 6) None = [(''Opex:Marketing'', 10)]
   \<and> \<not> (truthy (Some 0) \<and> truthy (Some 2025))
   \<and> get_revenue_vs_budget sample_tables (Some 0) (Some 2025)
       = get_revenue_vs_budget sample_tables None (Some 2025)
   \<and> (2025::int) \<noteq> 0
   \<and> actual (get_revenue_vs_budget sample_tables None (Some 2025)) = 320
   \<and> actual (get_revenue_vs_budget sample_tables (Some 6) (Some 2025)) = 220"
proof -
  note t = month_without_year_is_no_filter
             [where self = sample_tables and m = 6 and month = "Some 0"
                and year = "Some 2025" and y = 2025]
  from t have "actual (get_revenue_vs_budget sample_tables (Some 6) None)
       = sum_amount_usd (convert_to_usd (fx_df sample_tables)
           (filter (\<lambda>r. account_category r = ''Revenue'') (actuals_df sample_tables)))"
    by blast
  then have a: "actual (get_revenue_vs_budget sample_tables (Some 6) None) = 390"
    by (simp add: sample_eval)
  from t have "budget (get_revenue_vs_budget sample_tables (Some 6) None)
       = sum_amount_usd (convert_to_usd (fx_df sample_tables)
           (filter (\<lambda>r. account_category r = ''Revenue'') (budget_df sample_tables)))"
    by blast
  then have b: "budget (get_revenue_vs_budget sample_tables (Some 6) None) = 176"
    by (simp add: sample_eval)
  from t have "get_opex_breakdown sample_tables (Some 6) None
       = groupby_sum (convert_to_usd (fx_df sample_tables)
           (filter (\<lambda>r. startswith (account_category r) ''Opex:'') (actuals_df sample_tables)))"
    by blast
  then have o: "get_opex_breakdown sample_tables (Some 6) None = [(''Opex:Marketing'', 10)]"
    by (simp add: sample_eval groupby_sum_def startswith_def)
  have h: "\<not> (truthy (Some 0) \<and> truthy (Some 2025))"
    by (simp add: truthy_def)
  with t have z: "get_revenue_vs_budget sample_tables (Some 0) (Some 2025)
       = get_revenue_vs_budget sample_tables None (Some 2025)" by blast
  have n: "(2025::int) \<noteq> 0" by simp
  with t have "actual (get_revenue_vs_budget sample_tables None (Some 2025))
           = sum_amount_usd (convert_to_usd (fx_df sample_tables)
               (filter (\<lambda>r. account_category r = ''Revenue'' \<and> dt_year (row_month r) = 2025)
                  (actuals_df sample_tables)))" by blast
  then have y: "actual (get_revenue_vs_budget sample_tables None (Some 2025)) = 320"
    by (simp add: sample_eval)
  have j: "actual (get_revenue_vs_budget sample_tables (Some 6) (Some 2025)) = 220"
    by (simp add: get_revenue_vs_budget_totals sample_eval digits_eval)
  from a b o h z n y j show ?thesis by blast
qed

section \<open>Cash runway\<close>

lemma length_latest_cash:
  "length (sort_values key (frame_nlargest 4 key rows)) = min 4 (length rows)"
  by (simp add: sort_values_def frame_nlargest_def)

lemma get_cash_runway_try_few_rows:
  "length (cash_df self) < 4 \<Longrightarrow>
   get_cash_runway_try self
     = Inr \<lparr>cash_balance = 0, monthly_burn = 0, runway_months = Finite 0\<rparr>"
  by (simp add: get_cash_runway_try_def Let_def length_latest_cash)


text \<open>
  Claim C7. With fewer than 4 cash periods available, \<^verbatim>\<open>get_cash_runway\<close> returns exactly
  the zero result (balance 0, monthly burn 0, runway 0): it is returned by the
  \<^verbatim>\<open>try\<close> block itself, not by the exception handler, and it is not the infinite
  sentinel. The code counts rows; a cash table has at most one row per period, so that
  the number of periods is the number of rows.
\<close>

theorem get_cash_runway_too_few_periods:
  "(length (cash_df self) < 4 \<longrightarrow>
      get_cash_runway_try self
        = Inr \<lparr>cash_balance = 0, monthly_burn = 0, runway_months = Finite 0\<rparr>
      \<and> get_cash_runway self
        = \<lparr>cash_balance = 0, monthly_burn = 0, runway_months = Finite 0\<rparr>)
   \<and> (distinct (map cash_month (cash_df self))
        \<and> card (cash_month ` set (cash_df self)) < 4 \<longrightarrow>
      get_cash_runway_try self
        = Inr \<lparr>cash_balance = 0, monthly_burn = 0, runway_months = Finite 0\<rparr>
      \<and> get_cash_runway self
        = \<lparr>cash_balance = 0, monthly_burn = 0, runway_months = Finite 0\<rparr>
      \<and> runway_months (get_cash_runway self) \<noteq> Infinity)"
proof -
  have rows: "length (cash_df self) < 4 \<Longrightarrow>
      get_cash_runway_try self
        = Inr \<lparr>cash_balance = 0, monthly_burn = 0, runway_months = Finite 0\<rparr>
      \<and> get_cash_runway self
        = \<lparr>cash_balance = 0, monthly_burn = 0, runway_months = Finite 0\<rparr>"
    by (simp add: get_cash_runway_def get_cash_runway_try_few_rows)
  have "length (cash_df self) < 4"
    if d: "distinct (map cash_month (cash_df self))"
      and c: "card (cash_month ` set (cash_df self)) < 4"
  proof -
    from d have "card (set (map cash_month (cash_df self))) = length (map cash_month (cash_df self))"
      by (rule distinct_card)
    with c show ?thesis by simp
  qed
  with rows show ?thesis by auto
qed

theorem get_cash_runway_too_few_periods_witness:
  "length (cash_df short_history_tables) < 4
   \<and> distinct (map cash_month (cash_df short_history_tables))
   \<and> card (cash_month ` set (cash_df short_history_tables)) < 4
   \<and> get_cash_runway short_history_tables
       = \<lparr>cash_balance = 0, monthly_burn = 0, runway_months = Finite 0\<rparr>"
proof -
  have l: "length (cash_df short_history_tables) < 4"
    by (simp add: short_history_tables_def)
  have d: "distinct (map cash_month (cash_df short_history_tables))"
    by (simp add: short_history_tables_def)
  have c: "card (cash_month ` set (cash_df short_history_tables)) < 4"
    by (simp add: short_history_tables_def)
  from get_cash_runway_too_few_periods [of short_history_tables] d c
  have "get_cash_runway short_history_tables
       = \<lparr>cash_balance = 0, monthly_burn = 0, runway_months = Finite 0\<rparr>" by blast
  with l d c show ?thesis by blast
qed

lemma single_key_filter:
  assumes "distinct (map k xs)" "x \<in> set xs"
  shows "filter (\<lambda>y. k x = k y) xs = [x]"
  using assms
proof (induction xs)
  case Nil
  then show ?case by simp
next
  case (Cons a xs)
  show ?case
  proof (cases "x = a")
    case True
    from Cons.prems(1) have "k a \<notin> k ` set xs" by simp
    then have "filter (\<lambda>y. k a = k y) xs = []"
      by (auto simp: filter_empty_conv)
    with True show ?thesis by simp
  next
    case False
    with Cons.prems have x: "x \<in> set xs" by simp
    from Cons.prems(1) have "k a \<notin> k ` set xs" by simp
    with x have "k x \<noteq> k a" by (metis imageI)
    with Cons.IH x Cons.prems(1) show ?thesis by simp
  qed
qed

lemma sort_key_unique:
  assumes m: "mset ys = mset xs" and s: "sorted_wrt (<) (map k ys)"
  shows "sort_key k xs = ys"
proof (rule properties_for_sort_key [OF m])
  from s have dy: "distinct (map k ys)" and so: "sorted (map k ys)"
    by (simp_all add: strict_sorted_iff)
  show "sorted (map k ys)" by (rule so)
  from m have "mset (map k ys) = mset (map k xs)" by (metis mset_map)
  with dy have dx: "distinct (map k xs)"
    using mset_eq_imp_distinct_iff by blast
  fix x assume x: "x \<in> set ys"
  with m have x': "x \<in> set xs" using mset_eq_setD by blast
  show "filter (\<lambda>y. k x = k y) ys = filter (\<lambda>y. k x = k y) xs"
    by (simp add: single_key_filter [OF dy x] single_key_filter [OF dx x'])
qed

lemma latest_cash_chronological:
  assumes m: "mset chron = mset rows" and s: "sorted_wrt (<) (map key chron)"
  shows "sort_values key (frame_nlargest 4 key rows) = drop (length chron - 4) chron"
proof -
  have "mset chron = mset (rev rows)" using m by simp
  then have 1: "sort_key key (rev rows) = chron"
    using s by (rule sort_key_unique)
  have 2: "take 4 (rev chron) = rev (drop (length chron - 4) chron)"
    by (rule take_rev)
  have "sorted_wrt (<) (drop (length chron - 4) (map key chron))"
    using s by (rule sorted_wrt_drop)
  then have 3: "sorted_wrt (<) (map key (drop (length chron - 4) chron))"
    by (simp add: drop_map)
  have "mset (drop (length chron - 4) chron) = mset (rev (drop (length chron - 4) chron))"
    by simp
  then have "sort_key key (rev (drop (length chron - 4) chron)) = drop (length chron - 4) chron"
    using 3 by (rule sort_key_unique)
  then show ?thesis
    by (simp add: sort_values_def frame_nlargest_def 1 2)
qed


lemma get_cash_runway_try_chronological:
  assumes m: "mset chron = mset (cash_df self)"
    and s: "sorted_wrt (<) (map cash_month chron)"
    and n: "4 \<le> length (cash_df self)"
  shows "get_cash_runway_try self =
     Inr \<lparr>cash_balance = cash_usd (chron ! (length chron - 1)),
          monthly_burn = (cash_usd (chron ! (length chron - 4))
                          - cash_usd (chron ! (length chron - 1))) / 3,
          runway_months =
            (if (cash_usd (chron ! (length chron - 4))
                 - cash_usd (chron ! (length chron - 1))) / 3 > 0
             then Finite (cash_usd (chron ! (length chron - 1))
                          / ((cash_usd (chron ! (length chron - 4))
                              - cash_usd (chron ! (length chron - 1))) / 3))
             else Infinity)\<rparr>"
proof -
  let ?latest = "drop (length chron - 4) chron"
  have len: "length chron = length (cash_df self)"
    using m by (metis size_mset)
  have latest: "sort_values cash_month (frame_nlargest 4 cash_month (cash_df self)) = ?latest"
    using m s by (rule latest_cash_chronological)
  have l4: "length ?latest = 4"
    using n len by simp
  have first: "iloc ?latest 0 = Inr (chron ! (length chron - 4))"
    unfolding iloc_def Let_def l4 using n len by simp
  have "iloc ?latest (- 1) = Inr (?latest ! 3)"
    unfolding iloc_def Let_def l4 by simp
  moreover have "?latest ! 3 = chron ! (length chron - 1)"
  proof -
    have "length chron - 4 + 3 = length chron - 1" using n len by simp
    moreover have "length chron - 4 + 3 \<le> length chron" using n len by simp
    ultimately show ?thesis by (simp add: nth_drop)
  qed
  ultimately have last: "iloc ?latest (- 1) = Inr (chron ! (length chron - 1))"
    by simp
  show ?thesis
    unfolding get_cash_runway_try_def latest Let_def l4 first last
    by (simp add: and_then_def py_truediv_def)
qed


lemma later_rows_of_sorted:
  fixes k :: "'r \<Rightarrow> 'k::linorder"
  shows "sorted_wrt (<) (map k xs) \<Longrightarrow> i < length xs
   \<Longrightarrow> filter (\<lambda>r. k (xs ! i) < k r) xs = drop (Suc i) xs"
proof (induction xs arbitrary: i)
  case Nil
  then show ?case by simp
next
  case (Cons x xs)
  from Cons.prems(1) have later: "\<forall>r\<in>set xs. k x < k r" and s: "sorted_wrt (<) (map k xs)"
    by auto
  show ?case
  proof (cases i)
    case 0
    from later have "filter (\<lambda>r. k x < k r) xs = xs" by simp
    with 0 show ?thesis by simp
  next
    case (Suc j)
    with Cons.prems(2) have j: "j < length xs" by simp
    then have "xs ! j \<in> set xs" by simp
    with later have "k x < k (xs ! j)" by blast
    then have "\<not> k (xs ! j) < k x" by simp
    with Cons.IH [OF s j] Suc show ?thesis by simp
  qed
qed

lemma chronological_positions:
  fixes k :: "'r \<Rightarrow> 'k::linorder"
  assumes m: "mset chron = mset rows"
    and s: "sorted_wrt (<) (map k chron)"
    and n: "4 \<le> length rows"
  shows "\<forall>r\<in>set rows. k r \<le> k (chron ! (length chron - 1))"
    and "length (filter (\<lambda>r. k (chron ! (length chron - 4)) < k r) rows) = 3"
proof -
  have len: "length chron = length rows"
    using m by (metis size_mset)
  have set_eq: "set rows = set chron"
    using m by (metis set_mset_mset)
  have so: "sorted (map k chron)"
    using s by (rule strict_sorted_imp_sorted)
  show "\<forall>r\<in>set rows. k r \<le> k (chron ! (length chron - 1))"
  proof
    fix r assume "r \<in> set rows"
    then obtain i where i: "i < length chron" "chron ! i = r"
      unfolding set_eq in_set_conv_nth by blast
    then have le: "i \<le> length chron - 1" by simp
    have lt: "length chron - 1 < length (map k chron)" using n len by simp
    have "map k chron ! i \<le> map k chron ! (length chron - 1)"
      by (rule sorted_nth_mono [OF so le lt])
    with i n len show "k r \<le> k (chron ! (length chron - 1))" by simp
  qed
  have "mset (filter (\<lambda>r. k (chron ! (length chron - 4)) < k r) rows)
        = mset (filter (\<lambda>r. k (chron ! (length chron - 4)) < k r) chron)"
    using m by simp
  then have "length (filter (\<lambda>r. k (chron ! (length chron - 4)) < k r) rows)
        = length (filter (\<lambda>r. k (chron ! (length chron - 4)) < k r) chron)"
    by (metis size_mset)
  also have "filter (\<lambda>r. k (chron ! (length chron - 4)) < k r) chron
        = drop (Suc (length chron - 4)) chron"
    using s n len by (intro later_rows_of_sorted) simp_all
  also have "length \<dots> = 3" using n len by simp
  finally show "length (filter (\<lambda>r. k (chron ! (length chron - 4)) < k r) rows) = 3" .
qed


text \<open>
  Claim C6. Let \<open>chron\<close> be the cash table in chronological order, one row per period,
  with at least 4 rows. The 4 most recent periods are its last four rows: \<open>oldest\<close> is
  the fourth row from the end (exactly three rows of the table are later than it) and
  \<open>newest\<close> the last (no row is later). Then the monthly burn is
  \<open>(cash oldest - cash newest) / 3\<close>, the balance is the cash of \<open>newest\<close>, the runway
  is \<open>balance / burn\<close> when the burn is positive, and the infinite sentinel, which is
  neither 0 nor an error, when the burn is zero or negative.
\<close>

theorem get_cash_runway_burn_and_runway:
  assumes "mset chron = mset (cash_df self)"
    and "sorted_wrt (<) (map cash_month chron)"
    and "4 \<le> length (cash_df self)"
    and "oldest = chron ! (length chron - 4)"
    and "newest = chron ! (length chron - 1)"
    and "burn = (cash_usd oldest - cash_usd newest) / 3"
  shows "get_cash_runway_try self = Inr (get_cash_runway self)
    \<and> monthly_burn (get_cash_runway self) = burn
    \<and> cash_balance (get_cash_runway self) = cash_usd newest
    \<and> (burn > 0 \<longrightarrow> runway_months (get_cash_runway self) = Finite (cash_usd newest / burn))
    \<and> (burn \<le> 0 \<longrightarrow> runway_months (get_cash_runway self) = Infinity
                    \<and> runway_months (get_cash_runway self) \<noteq> Finite 0)
    \<and> (\<forall>r\<in>set (cash_df self). cash_month r \<le> cash_month newest)
    \<and> length (filter (\<lambda>r. cash_month oldest < cash_month r) (cash_df self)) = 3"
proof -
  have run: "get_cash_runway_try self = Inr (get_cash_runway self)
    \<and> monthly_burn (get_cash_runway self) = burn
    \<and> cash_balance (get_cash_runway self) = cash_usd newest
    \<and> (burn > 0 \<longrightarrow> runway_months (get_cash_runway self) = Finite (cash_usd newest / burn))
    \<and> (burn \<le> 0 \<longrightarrow> runway_months (get_cash_runway self) = Infinity
                    \<and> runway_months (get_cash_runway self) \<noteq> Finite 0)"
    unfolding assms(4-6) get_cash_runway_def
      get_cash_runway_try_chronological [OF assms(1-3)]
    by simp
  have pos: "\<forall>r\<in>set (cash_df self). cash_month r \<le> cash_month newest"
    "length (filter (\<lambda>r. cash_month oldest < cash_month r) (cash_df self)) = 3"
    unfolding assms(4-5) by (rule chronological_positions [OF assms(1-3)])+
  from run pos show ?thesis by blast
qed

theorem get_cash_runway_burn_and_runway_witness:
  "mset [\<lparr>cash_month = (2025, 1, 1), cash_usd = 1500\<rparr>,
         \<lparr>cash_month = (2025, 3, 1), cash_usd = 900\<rparr>,
         \<lparr>cash_month = (2025, 4, 1), cash_usd = 800\<rparr>,
         \<lparr>cash_month = (2025, 5, 1), cash_usd = 700\<rparr>,
         \<lparr>cash_month = (2025, 6, 1), cash_usd = 600\<rparr>] = mset (cash_df sample_tables)
   \<and> sorted_wrt (<) [(2025, 1, 1), (2025, 3, 1), (2025, 4, 1), (2025, 5, 1), (2025, 6, 1 :: int) :: timestamp]
   \<and> 4 \<le> length (cash_df sample_tables)
   \<and> monthly_burn (get_cash_runway sample_tables) = 100
   \<and> cash_balance (get_cash_runway sample_tables) = 600
   \<and> runway_months (get_cash_runway sample_tables) = Finite 6
   \<and> monthly_burn (get_cash_runway growing_cash_tables) = - 100
   \<and> runway_months (get_cash_runway growing_cash_tables) = Infinity"
proof -
  let ?chron = "[\<lparr>cash_month = (2025, 1, 1), cash_usd = 1500\<rparr>,
         \<lparr>cash_month = (2025, 3, 1), cash_usd = 900\<rparr>,
         \<lparr>cash_month = (2025, 4, 1), cash_usd = 800\<rparr>,
         \<lparr>cash_month = (2025, 5, 1), cash_usd = 700\<rparr>,
         \<lparr>cash_month = (2025, 6, 1), cash_usd = 600\<rparr>]"
  let ?grow = "[\<lparr>cash_month = (2025, 3, 1), cash_usd = 100\<rparr>,
         \<lparr>cash_month = (2025, 4, 1), cash_usd = 200\<rparr>,
         \<lparr>cash_month = (2025, 5, 1), cash_usd = 300\<rparr>,
         \<lparr>cash_month = (2025, 6, 1), cash_usd = 400\<rparr>]"
  have m: "mset ?chron = mset (cash_df sample_tables)"
    by (simp add: sample_tables_def)
  have s0: "sorted_wrt (<) [(2025, 1, 1), (2025, 3, 1), (2025, 4, 1), (2025, 5, 1), (2025, 6, 1 :: int) :: timestamp]"
    by simp
  then have s: "sorted_wrt (<) (map cash_month ?chron)" by simp
  have n: "4 \<le> length (cash_df sample_tables)"
    by (simp add: sample_tables_def)
  note t = get_cash_runway_burn_and_runway [OF m s n refl refl refl]
  from t have b: "monthly_burn (get_cash_runway sample_tables) = 100" by simp
  from t have c: "cash_balance (get_cash_runway sample_tables) = 600" by simp
  from t have r: "runway_months (get_cash_runway sample_tables) = Finite 6" by simp
  have m': "mset ?grow = mset (cash_df growing_cash_tables)"
    by (simp add: growing_cash_tables_def)
  have s': "sorted_wrt (<) (map cash_month ?grow)" by simp
  have n': "4 \<le> length (cash_df growing_cash_tables)"
    by (simp add: growing_cash_tables_def)
  note g = get_cash_runway_burn_and_runway [OF m' s' n' refl refl refl]
  from g have b': "monthly_burn (get_cash_runway growing_cash_tables) = - 100" by simp
  from g have r': "runway_months (get_cash_runway growing_cash_tables) = Infinity" by simp
  from m s0 n b c r b' r' show ?thesis by blast
qed

section \<open>Gross margin trend\<close>

lemma and_then_Inr: "and_then (Inr x) f = f x"
  and and_then_Inl: "and_then (Inl e) f = Inl e"
  by (simp_all add: and_then_def)

lemma sample_latest_months:
  "sort (series_nlargest 2 (map row_month (actuals_df sample_tables)))
     = [(2025, 6, 1), (2025, 6, 1)]"
  by (simp add: series_nlargest_def sample_tables_def ledger_def)


text \<open>
  The loop never raises, and it yields one margin and one label per element of
  \<open>latest_months\<close>: the labels are those of the \<open>n\<close> largest values of the \<^verbatim>\<open>month\<close>
  column counted row by row, so the result has \<open>min n (number of rows)\<close> entries
  whatever the number of distinct periods is.
\<close>

lemma gross_margin_loop_labels:
  "\<exists>ms. gross_margin_loop self latest margins_acc month_labels
          = Inr (ms, month_labels @ map strftime_Ym latest)
        \<and> length ms = length margins_acc + length latest"
proof (induction latest arbitrary: margins_acc month_labels)
  case Nil
  then show ?case by simp
next
  case (Cons month rest)
  define revenue_total where "revenue_total = sum_amount_usd (convert_to_usd (fx_df self)
      (filter (\<lambda>r. account_category r = ''Revenue'')
         (filter (\<lambda>r. row_month r = month) (actuals_df self))))"
  define cogs_total where "cogs_total = sum_amount_usd (convert_to_usd (fx_df self)
      (filter (\<lambda>r. account_category r = ''COGS'')
         (filter (\<lambda>r. row_month r = month) (actuals_df self))))"
  define margin where
    "margin = (if revenue_total \<noteq> 0 then (revenue_total - cogs_total) / revenue_total else 0)"
  have step:
    "gross_margin_loop self (month # rest) margins_acc month_labels
       = gross_margin_loop self rest (margins_acc @ [margin * 100])
           (month_labels @ [strftime_Ym month])"
    by (simp add: Let_def and_then_def py_truediv_def margin_def revenue_total_def
        cogs_total_def)
  from Cons.IH [of "margins_acc @ [margin * 100]" "month_labels @ [strftime_Ym month]"]
  show ?case unfolding step by simp
qed

lemma calculate_gross_margin_selects_rows:
  "months (calculate_gross_margin self n)
     = map strftime_Ym (sort (series_nlargest n (map row_month (actuals_df self))))"
  and "length (margins (calculate_gross_margin self n))
     = min (nat n) (length (actuals_df self))"
proof -
  let ?latest = "sort (series_nlargest n (map row_month (actuals_df self)))"
  obtain ms where ms: "gross_margin_loop self ?latest [] [] = Inr (ms, map strftime_Ym ?latest)"
    "length ms = length ?latest"
    using gross_margin_loop_labels [of self ?latest "[]" "[]"] by auto
  then have r: "calculate_gross_margin self n
      = \<lparr>margins = ms, months = map strftime_Ym ?latest,
         avg_margin = (if ms \<noteq> [] then np_mean ms else 0)\<rparr>"
    by (simp add: calculate_gross_margin_def calculate_gross_margin_try_def and_then_def)
  show "months (calculate_gross_margin self n) = map strftime_Ym ?latest"
    by (simp add: r)
  have "length ?latest = min (nat n) (length (actuals_df self))"
    by (simp add: series_nlargest_def min.commute)
  with ms(2) show "length (margins (calculate_gross_margin self n))
     = min (nat n) (length (actuals_df self))"
    by (simp add: r)
qed

text \<open>
  Claim C2 says that \<^verbatim>\<open>calculate_gross_margin\<close> with \<open>n_months = N\<close> selects the \<open>N\<close> most
  recent distinct periods of the actuals table, by period value and not by row count,
  and returns one margin per selected period, oldest first. The code takes
  \<^verbatim>\<open>nlargest(N)\<close> over the rows of the \<^verbatim>\<open>month\<close> column, so a period that several rows
  carry is selected several times. On the sample table, whose latest period June 2025
  has three rows, \<open>N = 2\<close> yields June 2025 twice and never reaches May 2025.
\<close>

theorem calculate_gross_margin_repeats_latest_period:
  "calculate_gross_margin sample_tables 2
     = \<lparr>margins = [75, 75], months = [''2025-06'', ''2025-06''], avg_margin = 75\<rparr>"
  unfolding calculate_gross_margin_def calculate_gross_margin_try_def sample_latest_months Let_def
  by (simp add: sample_eval digits_eval and_then_def py_truediv_def np_mean_def)



text \<open>The two most recent distinct periods of the sample table are May and June 2025.\<close>

lemma sample_two_latest_periods:
  "sort (series_nlargest 2 (remdups (map row_month (actuals_df sample_tables))))
     = [(2025, 5, 1), (2025, 6, 1)]"
  by (simp add: series_nlargest_def sample_tables_def ledger_def)


section \<open>The dispatcher\<close>

lemma process_question_try_text:
  "process_question_try tools fmt question = Inr env \<Longrightarrow> text' env \<noteq> []"
  unfolding process_question_try_def Let_def and_then_def
  by (auto split: if_splits sum.splits prod.splits)

lemma classify_cash: "classify_intent ''What is our cash runway?'' = ''cash_runway''"
  by (simp add: classify_intent_def str_eval)

lemma classify_weather: "classify_intent ''How is the weather today?'' = ''unknown''"
  by (simp add: classify_intent_def str_eval)


text \<open>
  Claim C1. For every question, \<^verbatim>\<open>process_question\<close> returns an envelope and raises
  nothing, whatever the tools and the formatting do: an exception raised anywhere in
  the \<^verbatim>\<open>try\<close> block becomes the envelope with intent \<^verbatim>\<open>error\<close>, whose text ends with
  the exception's message and whose chart and data are \<open>None\<close>; an envelope the block
  produces is returned as it is; and in every case the text of the returned envelope is
  not empty.
\<close>

theorem process_question_never_raises:
  "(\<exists>env. process_question tools fmt question = Inr env \<and> text' env \<noteq> [])
   \<and> (\<forall>e. process_question_try tools fmt question = Inl e \<longrightarrow>
          process_question tools fmt question
            = Inr \<lparr>intent = ''error'',
                   text' = ''Sorry, I encountered an error processing your question: ''
                             @ str_exn e,
                   chart = None, data = None\<rparr>)
   \<and> (\<forall>env. process_question_try tools fmt question = Inr env \<longrightarrow>
          process_question tools fmt question = Inr env)"
proof (intro conjI allI impI)
  show "\<exists>env. process_question tools fmt question = Inr env \<and> text' env \<noteq> []"
  proof (cases "process_question_try tools fmt question")
    case (Inl e)
    then show ?thesis by (simp add: process_question_def)
  next
    case (Inr env)
    then show ?thesis
      using process_question_try_text by (simp add: process_question_def)
  qed
next
  fix e assume "process_question_try tools fmt question = Inl e"
  then show "process_question tools fmt question
            = Inr \<lparr>intent = ''error'',
                   text' = ''Sorry, I encountered an error processing your question: ''
                             @ str_exn e,
                   chart = None, data = None\<rparr>"
    by (simp add: process_question_def)
next
  fix env assume "process_question_try tools fmt question = Inr env"
  then show "process_question tools fmt question = Inr env"
    by (simp add: process_question_def)
qed


theorem process_question_never_raises_witness:
  "process_question_try
      ((finance_data_tools sample_tables)
         \<lparr>api_get_cash_runway := Inl (Exception ''cash sheet unavailable'')\<rparr>)
      (\<lambda>spec x. Inr spec) ''What is our cash runway?''
     = Inl (Exception ''cash sheet unavailable'')
   \<and> process_question
      ((finance_data_tools sample_tables)
         \<lparr>api_get_cash_runway := Inl (Exception ''cash sheet unavailable'')\<rparr>)
      (\<lambda>spec x. Inr spec) ''What is our cash runway?''
     = Inr \<lparr>intent = ''error'',
            text' = ''Sorry, I encountered an error processing your question: cash sheet unavailable'',
            chart = None, data = None\<rparr>
   \<and> process_question_try (finance_data_tools sample_tables) (\<lambda>spec x. Inr spec)
        ''How is the weather today?''
     = Inr \<lparr>intent = ''unknown'',
            text' = ''I'' @ [CHR 0x27] @ ''m not sure how to help with that question. Please ask about revenue vs budget, gross margin, opex breakdown, cash runway, or EBITDA.'',
            chart = None, data = None\<rparr>
   \<and> process_question (finance_data_tools sample_tables) (\<lambda>spec x. Inr spec)
        ''How is the weather today?''
     = Inr \<lparr>intent = ''unknown'',
            text' = ''I'' @ [CHR 0x27] @ ''m not sure how to help with that question. Please ask about revenue vs budget, gross margin, opex breakdown, cash runway, or EBITDA.'',
            chart = None, data = None\<rparr>"
proof -
  let ?broken = "(finance_data_tools sample_tables)
         \<lparr>api_get_cash_runway := Inl (Exception ''cash sheet unavailable'')\<rparr>"
  let ?fmt = "\<lambda>(spec :: string) (x :: pyfloat). (Inr spec :: exn + string)"
  have t: "process_question_try ?broken ?fmt ''What is our cash runway?''
             = Inl (Exception ''cash sheet unavailable'')"
    by (simp add: process_question_try_def classify_cash Let_def and_then_def split_beta)
  with process_question_never_raises [of ?broken ?fmt "''What is our cash runway?''"]
  have "process_question ?broken ?fmt ''What is our cash runway?''
     = Inr \<lparr>intent = ''error'',
            text' = ''Sorry, I encountered an error processing your question: ''
                      @ str_exn (Exception ''cash sheet unavailable''),
            chart = None, data = None\<rparr>" by blast
  then have p: "process_question ?broken ?fmt ''What is our cash runway?''
     = Inr \<lparr>intent = ''error'',
            text' = ''Sorry, I encountered an error processing your question: cash sheet unavailable'',
            chart = None, data = None\<rparr>" by simp
  have u: "process_question_try (finance_data_tools sample_tables) ?fmt
        ''How is the weather today?''
     = Inr \<lparr>intent = ''unknown'',
            text' = ''I'' @ [CHR 0x27] @ ''m not sure how to help with that question. Please ask about revenue vs budget, gross margin, opex breakdown, cash runway, or EBITDA.'',
            chart = None, data = None\<rparr>"
    by (simp add: process_question_try_def classify_weather Let_def split_beta)
  with process_question_never_raises
         [of "finance_data_tools sample_tables" ?fmt "''How is the weather today?''"]
  have q: "process_question (finance_data_tools sample_tables) ?fmt
        ''How is the weather today?''
     = Inr \<lparr>intent = ''unknown'',
            text' = ''I'' @ [CHR 0x27] @ ''m not sure how to help with that question. Please ask about revenue vs budget, gross margin, opex breakdown, cash runway, or EBITDA.'',
            chart = None, data = None\<rparr>" by blast
  from t p u q show ?thesis by blast
qed

end
